theory Spec2Isabelle
  imports Main "HOL-Library.Sublist"
begin

section \<open>JavaScript strings\<close>

text \<open>
  A JavaScript string is modelled as a \<open>string\<close>: a list of code units below 256
  (the Latin-1 range). The built-in string methods the repository calls are written out
  on that range.
\<close>

text \<open>
  \<open>String.prototype.trim\<close> removes white space and line terminators from both ends.
  Below 256 these are the code units 9 to 13, 32 and 160.
\<close>

definition isWhiteSpace :: "char \<Rightarrow> bool" where
  "isWhiteSpace c =
     (let n = (of_char c :: nat) in (9 \<le> n \<and> n \<le> 13) \<or> n = 32 \<or> n = 160)"

definition trim :: "string \<Rightarrow> string" where
  "trim s = rev (dropWhile isWhiteSpace (rev (dropWhile isWhiteSpace s)))"

text \<open>
  \<open>String.prototype.toLowerCase\<close>: below 256 the letters with a lower-case partner are
  A to Z and the code units 192 to 222 without 215 (the multiplication sign).
\<close>

definition toLowerChar :: "char \<Rightarrow> char" where
  "toLowerChar c =
     (let n = (of_char c :: nat)
      in if (65 \<le> n \<and> n \<le> 90) \<or> (192 \<le> n \<and> n \<le> 222 \<and> n \<noteq> 215)
         then char_of (n + 32) else c)"

definition toLowerCase :: "string \<Rightarrow> string" where
  "toLowerCase s = map toLowerChar s"

text \<open>
  \<open>s.split(sep)\<close> for a separator of one character: the pieces between the separators,
  always at least one piece.
\<close>

fun js_split :: "char \<Rightarrow> string \<Rightarrow> string list" where
  "js_split sep [] = [[]]"
| "js_split sep (c # cs) =
     (if c = sep then [] # js_split sep cs
      else (case js_split sep cs of
              [] \<Rightarrow> [[c]]
            | piece # pieces \<Rightarrow> (c # piece) # pieces))"

text \<open>\<open>Array.prototype.pop\<close>, read for its result only: \<open>undefined\<close> on an empty array.\<close>

definition pop :: "'a list \<Rightarrow> 'a option" where
  "pop xs = (case rev xs of [] \<Rightarrow> None | x # _ \<Rightarrow> Some x)"

section \<open>The file validator of pushFilesAsCommit\<close>

record file_record =
  file_path :: string
  file_content :: string

text \<open>The regular expression \<open>/[<>:"|?*\x00-\x1F]/\<close> on one character.\<close>

definition invalidChars :: "char \<Rightarrow> bool" where
  "invalidChars c =
     (c = CHR ''<'' \<or> c = CHR ''>'' \<or> c = CHR '':'' \<or> c = CHR 0x22 \<or> c = CHR ''|''
      \<or> c = CHR ''?'' \<or> c = CHR ''*'' \<or> (of_char c :: nat) \<le> 31)"

text \<open>The callback of \<open>files.filter\<close>.\<close>

definition keepFile :: "file_record \<Rightarrow> bool" where
  "keepFile f =
     (if file_content f = [] \<or> length (trim (file_content f)) = 0 then False
      else if file_path f = [] \<or> length (trim (file_path f)) = 0 then False
      else if list_ex invalidChars (file_path f) then False
      else True)"

text \<open>\<open>path.replace(/\\/g, '/')\<close>: every backslash (code unit 92) becomes a slash.\<close>

definition replaceBackslashes :: "string \<Rightarrow> string" where
  "replaceBackslashes s = map (\<lambda>c. if c = CHR 0x5C then CHR ''/'' else c) s"

text \<open>The callback of \<open>.map\<close>.\<close>

definition normalizeFile :: "file_record \<Rightarrow> file_record" where
  "normalizeFile f =
     \<lparr>file_path = trim (replaceBackslashes (file_path f)), file_content = file_content f\<rparr>"

definition validatedFiles :: "file_record list \<Rightarrow> file_record list" where
  "validatedFiles files = map normalizeFile (filter keepFile files)"

section \<open>Errors\<close>

text \<open>
  What a \<open>catch\<close> clause of the repository can receive. An error thrown by axios carries
  its message and, when the remote service answered, the response: the HTTP status and
  the fields \<open>message\<close> and \<open>errors\<close> of the response body, which the publisher reads
  for a 422. \<open>Error\<close> is \<open>new Error(message)\<close>, thrown by the repository itself;
  \<open>SyntaxError\<close> is what \<open>new RegExp\<close> throws on a malformed pattern, and
  \<open>TypeError\<close> what the engine throws when a property of \<open>null\<close> or \<open>undefined\<close> is read.
\<close>

record error_detail =
  detail_resource :: "string option"
  detail_message :: "string option"
  detail_code :: "string option"
  detail_json :: string

record error_response =
  response_status :: nat
  response_message :: "string option"
  response_errors :: "error_detail list"

record axios_failure =
  failure_message :: string
  failure_response :: "error_response option"

datatype js_error =
    AxiosError axios_failure
  | Error string
  | SyntaxError string
  | TypeError string

text \<open>\<open>error.response?.status\<close> and \<open>error.message\<close>.\<close>

fun statusOf :: "js_error \<Rightarrow> nat option" where
  "statusOf (AxiosError f) = map_option response_status (failure_response f)"
| "statusOf (Error m) = None"
| "statusOf (SyntaxError m) = None"
| "statusOf (TypeError m) = None"

fun messageOf :: "js_error \<Rightarrow> string" where
  "messageOf (AxiosError f) = failure_message f"
| "messageOf (Error m) = m"
| "messageOf (SyntaxError m) = m"
| "messageOf (TypeError m) = m"

text \<open>
  A \<open>throw\<close> statement can throw any value. The code of the repository, axios and
  \<open>new RegExp\<close> throw error objects; a custom filter, which is code of the caller, may
  as well throw \<open>null\<close> or \<open>undefined\<close>. Any other value it throws is no different from
  an error object for the \<open>catch\<close> that receives it.
\<close>

datatype thrown = ThrownObject js_error | ThrownNull | ThrownUndefined

section \<open>Exclude patterns: from glob to regular expression\<close>

text \<open>\<open>pattern.replace(/\*/g, '.*').replace(/\?/g, '.')\<close>, the source of the regular expression.\<close>

definition replaceStars :: "string \<Rightarrow> string" where
  "replaceStars s = concat (map (\<lambda>c. if c = CHR ''*'' then ''.*'' else [c]) s)"

definition replaceQuestionMarks :: "string \<Rightarrow> string" where
  "replaceQuestionMarks s = map (\<lambda>c. if c = CHR ''?'' then CHR ''.'' else c) s"

definition globToRegExpSource :: "string \<Rightarrow> string" where
  "globToRegExpSource pattern = replaceQuestionMarks (replaceStars pattern)"

text \<open>
  \<open>new RegExp(source)\<close> and \<open>regex.test(path)\<close> belong to the JavaScript engine. They are
  written out here for the sources made of ordinary characters, \<open>.\<close> and \<open>.*\<close>, which is
  what the replacement yields for a pattern of ordinary characters, \<open>*\<close>, \<open>?\<close> and \<open>.\<close>. A
  source with any other syntax character is left to the engine, a parameter of the model
  (it returns the result of the test, or the error the constructor throws).

  Without flags, \<open>.\<close> matches every character that is no line terminator (below 256:
  code units 10 and 13), a literal matches itself with its case, and \<open>test\<close> looks for
  a match starting at any position of the string.
\<close>

datatype regexp_atom = Literal char | AnyChar

datatype regexp_term = One regexp_atom | Star regexp_atom

definition syntaxCharacter :: "char \<Rightarrow> bool" where
  "syntaxCharacter c = (c \<in> set ''^$.*+?()[]{}|'' \<or> c = CHR 0x5C)"

fun parseRegExp :: "string \<Rightarrow> regexp_term list option" where
  "parseRegExp [] = Some []"
| "parseRegExp (c # cs) =
     (if c = CHR ''.'' then
        (case cs of
           [] \<Rightarrow> Some [One AnyChar]
         | d # ds \<Rightarrow>
             if d = CHR ''*'' then map_option (Cons (Star AnyChar)) (parseRegExp ds)
             else map_option (Cons (One AnyChar)) (parseRegExp cs))
      else if syntaxCharacter c then None
      else map_option (Cons (One (Literal c))) (parseRegExp cs))"

fun atomMatches :: "regexp_atom \<Rightarrow> char \<Rightarrow> bool" where
  "atomMatches (Literal l) c = (c = l)"
| "atomMatches AnyChar c = (c \<noteq> CHR 0x0A \<and> c \<noteq> CHR 0x0D)"

text \<open>\<open>matchesAt r s\<close>: the terms \<open>r\<close> match a prefix of \<open>s\<close>.\<close>

fun matchesAt :: "regexp_term list \<Rightarrow> string \<Rightarrow> bool" where
  "matchesAt [] s = True"
| "matchesAt (One a # r) [] = False"
| "matchesAt (One a # r) (c # s) = (atomMatches a c \<and> matchesAt r s)"
| "matchesAt (Star a # r) [] = matchesAt r []"
| "matchesAt (Star a # r) (c # s) =
     (matchesAt r (c # s) \<or> (atomMatches a c \<and> matchesAt (Star a # r) s))"

fun matchesSomewhere :: "regexp_term list \<Rightarrow> string \<Rightarrow> bool" where
  "matchesSomewhere r [] = matchesAt r []"
| "matchesSomewhere r (c # s) = (matchesAt r (c # s) \<or> matchesSomewhere r s)"

type_synonym regexp_engine = "string \<Rightarrow> string \<Rightarrow> js_error + bool"

definition regExpTest :: "regexp_engine \<Rightarrow> string \<Rightarrow> string \<Rightarrow> js_error + bool" where
  "regExpTest engine source s =
     (case parseRegExp source of
        Some r \<Rightarrow> Inr (matchesSomewhere r s)
      | None \<Rightarrow> engine source s)"

text \<open>
  \<open>excludePatterns.some(pattern => new RegExp(...).test(item.path))\<close>: the patterns in
  order, stopping at the first that matches or throws.
\<close>

fun someExcluded :: "regexp_engine \<Rightarrow> string list \<Rightarrow> string \<Rightarrow> js_error + bool" where
  "someExcluded engine [] p = Inr False"
| "someExcluded engine (pattern # patterns) p =
     (case regExpTest engine (globToRegExpSource pattern) p of
        Inl e \<Rightarrow> Inl e
      | Inr matched \<Rightarrow> if matched then Inr True else someExcluded engine patterns p)"

text \<open>
  The glob the specification describes, for comparison: \<open>*\<close> stands for any run of
  characters, \<open>?\<close> for any single character, every other character for itself, and the
  pattern has to cover the whole path.
\<close>

fun globMatches :: "string \<Rightarrow> string \<Rightarrow> bool" where
  "globMatches [] s = (s = [])"
| "globMatches (g # gs) [] = (g = CHR ''*'' \<and> globMatches gs [])"
| "globMatches (g # gs) (c # s) =
     (if g = CHR ''*'' then globMatches gs (c # s) \<or> globMatches (g # gs) s
      else (g = CHR ''?'' \<or> g = c) \<and> globMatches gs s)"

text \<open>The same glob matched against a part of the path only, wherever it starts and ends.\<close>

definition globMatchesPart :: "string \<Rightarrow> string \<Rightarrow> bool" where
  "globMatchesPart g s = list_ex (\<lambda>part. globMatches g part) (concat (map prefixes (suffixes s)))"

section \<open>The extension allow-list\<close>

text \<open>\<open>item.path.split('.').pop()?.toLowerCase()\<close>\<close>

definition fileExtension :: "string \<Rightarrow> string option" where
  "fileExtension p = map_option toLowerCase (pop (js_split (CHR ''.'') p))"

text \<open>\<open>!fileExtension || !includeExtensions.includes(fileExtension)\<close>\<close>

definition extensionRejected :: "string list \<Rightarrow> string \<Rightarrow> bool" where
  "extensionRejected extensions p =
     (case fileExtension p of
        None \<Rightarrow> True
      | Some ext \<Rightarrow> ext = [] \<or> ext \<notin> set extensions)"

section \<open>The remote service\<close>

text \<open>
  The requests the repository sends to the hosting API, one constructor per URL and
  method of \<open>git.ts\<close>, with the fields of the posted body:
  \<^item> \<open>GetRepo owner repo\<close>: GET \<open>/repos/{owner}/{repo}\<close>
  \<^item> \<open>GetUser\<close>: GET \<open>/user\<close>
  \<^item> \<open>GetTree owner repo branch\<close>: GET \<open>/repos/{owner}/{repo}/git/trees/{branch}?recursive=1\<close>
  \<^item> \<open>GetUrl url\<close>: GET of the \<open>url\<close> of a tree item
  \<^item> \<open>GetRef owner repo branch\<close>: GET \<open>/repos/{owner}/{repo}/git/refs/heads/{branch}\<close>
  \<^item> \<open>GetCommit owner repo sha\<close>: GET \<open>/repos/{owner}/{repo}/git/commits/{sha}\<close>
  \<^item> \<open>PostBlob owner repo content encoding\<close>: POST \<open>/repos/{owner}/{repo}/git/blobs\<close>
  \<^item> \<open>PostTree owner repo base_tree tree\<close>: POST \<open>/repos/{owner}/{repo}/git/trees\<close>
  \<^item> \<open>PostCommit owner repo message parents tree\<close>: POST \<open>/repos/{owner}/{repo}/git/commits\<close>
  \<^item> \<open>PatchRef owner repo branch sha force\<close>: PATCH \<open>/repos/{owner}/{repo}/git/refs/heads/{branch}\<close>
  \<^item> \<open>PostRef owner repo ref sha\<close>: POST \<open>/repos/{owner}/{repo}/git/refs\<close>
  \<^item> \<open>PostRepo org name description private auto_init\<close>: POST \<open>/orgs/{org}/repos\<close>, or
    \<open>/user/repos\<close> without an organisation.
\<close>

record tree_item =
  item_path :: string
  item_type :: string
  item_url :: string

record tree_entry =
  entry_path :: string
  entry_mode :: string
  entry_type :: string
  entry_sha :: string

datatype request =
    GetRepo string string
  | GetUser
  | GetTree string string string
  | GetUrl string
  | GetRef string string string
  | GetCommit string string string
  | PostBlob string string string string
  | PostTree string string string "tree_entry list"
  | PostCommit string string string "string list" string
  | PatchRef string string string string bool
  | PostRef string string string string
  | PostRepo "string option" string "string option" bool bool

text \<open>
  A successful response, as the fields the repository reads from it: \<open>res.data.sha\<close>,
  \<open>res.data.object.sha\<close>, \<open>res.data.tree.sha\<close> (of a commit), \<open>res.data.tree\<close> (of a
  recursive tree listing), \<open>res.data.size\<close> and \<open>res.data.content\<close> (of a blob),
  \<open>res.data.login\<close> and \<open>res.headers['x-oauth-scopes']\<close> (of the user), and the fields of a
  created repository. Every field is present in every response: a response of another
  shape than the API documents is outside the model.
\<close>

record response =
  data_sha :: string
  data_object_sha :: string
  data_tree_sha :: string
  data_tree :: "tree_item list"
  data_size :: int
  data_content :: string
  data_login :: string
  header_oauth_scopes :: "string option"
  data_name :: string
  data_full_name :: string
  data_html_url :: string
  data_clone_url :: string
  data_owner_login :: string

text \<open>
  The remote service answers a request, sent with a token, from its current state \<open>'w\<close>
  and moves to a new state. Every exchange is appended to a log, so that the calls of
  a run and their order can be stated. The state of a run is the remote state and the log.
\<close>

type_synonym reply = "axios_failure + response"

type_synonym 'w remote = "string \<Rightarrow> request \<Rightarrow> 'w \<Rightarrow> reply \<times> 'w"

type_synonym exchange = "string \<times> request \<times> reply"

type_synonym 'w state = "'w \<times> exchange list"

text \<open>
  A computation returns a value or throws, and leaves a new state. Where only error
  objects are thrown the thrown value is a \<open>js_error\<close>; inside the \<open>try\<close> block around one
  entry of a walk, where the custom filter runs, it is a \<open>thrown\<close>.
\<close>

type_synonym ('e, 'a, 'w) task = "'w state \<Rightarrow> ('e + 'a) \<times> 'w state"

type_synonym ('a, 'w) io = "(js_error, 'a, 'w) task"

definition return :: "'a \<Rightarrow> ('e, 'a, 'w) task" where
  "return x s = (Inr x, s)"

definition throw :: "'e \<Rightarrow> ('e, 'a, 'w) task" where
  "throw e s = (Inl e, s)"

text \<open>\<open>const x = await m; k x\<close>: a rejection of \<open>m\<close> leaves the block.\<close>

definition await :: "('e, 'a, 'w) task \<Rightarrow> ('a \<Rightarrow> ('e, 'b, 'w) task) \<Rightarrow> ('e, 'b, 'w) task" where
  "await m k s = (case m s of (Inl e, s') \<Rightarrow> (Inl e, s') | (Inr x, s') \<Rightarrow> k x s')"

text \<open>\<open>try { m } catch (error) { h error }\<close>\<close>

definition try_catch :: "('a, 'w) io \<Rightarrow> (js_error \<Rightarrow> ('a, 'w) io) \<Rightarrow> ('a, 'w) io" where
  "try_catch m h s = (case m s of (Inl e, s') \<Rightarrow> h e s' | (Inr x, s') \<Rightarrow> (Inr x, s'))"

text \<open>One axios call with the header \<open>Authorization: token ...\<close>.\<close>

definition axios :: "'w remote \<Rightarrow> string \<Rightarrow> request \<Rightarrow> (response, 'w) io" where
  "axios remote token rq s =
     (case remote token rq (fst s) of
        (Inl f, w') \<Rightarrow> (Inl (AxiosError f), (w', snd s @ [(token, rq, Inl f)]))
      | (Inr res, w') \<Rightarrow> (Inr res, (w', snd s @ [(token, rq, Inr res)])))"

text \<open>A computation that throws error objects only, where any value may be thrown.\<close>

definition thrownObject :: "('a, 'w) io \<Rightarrow> (thrown, 'a, 'w) task" where
  "thrownObject m s =
     (case m s of (Inl e, s') \<Rightarrow> (Inl (ThrownObject e), s') | (Inr x, s') \<Rightarrow> (Inr x, s'))"

section \<open>The object store client\<close>

definition repositoryExists :: "'w remote \<Rightarrow> string \<Rightarrow> string \<Rightarrow> string \<Rightarrow> (bool, 'w) io" where
  "repositoryExists remote owner repo token =
     try_catch
       (await (axios remote token (GetRepo owner repo)) (\<lambda>_. return True))
       (\<lambda>error. if statusOf error = Some 404 then return False else throw error)"

definition getBranchSHA :: "'w remote \<Rightarrow> string \<Rightarrow> string \<Rightarrow> string \<Rightarrow> string \<Rightarrow> (string, 'w) io" where
  "getBranchSHA remote owner repo branch token =
     await (axios remote token (GetRef owner repo branch)) (\<lambda>res. return (data_object_sha res))"

definition createBlob :: "'w remote \<Rightarrow> string \<Rightarrow> string \<Rightarrow> string \<Rightarrow> string \<Rightarrow> (string, 'w) io" where
  "createBlob remote owner repo content token =
     await (axios remote token (PostBlob owner repo content ''utf-8''))
       (\<lambda>res. return (data_sha res))"

text \<open>The loop of \<open>createTree\<close>: one blob per file, in order, each pushed onto \<open>tree\<close>.\<close>

fun createBlobs ::
  "'w remote \<Rightarrow> string \<Rightarrow> string \<Rightarrow> string \<Rightarrow> file_record list \<Rightarrow> tree_entry list
   \<Rightarrow> (tree_entry list, 'w) io" where
  "createBlobs remote owner repo token [] tree = return tree"
| "createBlobs remote owner repo token (f # files) tree =
     await (createBlob remote owner repo (file_content f) token)
       (\<lambda>blobSHA. createBlobs remote owner repo token files
          (tree @ [\<lparr>entry_path = file_path f, entry_mode = ''100644'',
                    entry_type = ''blob'', entry_sha = blobSHA\<rparr>]))"

definition createTree ::
  "'w remote \<Rightarrow> string \<Rightarrow> string \<Rightarrow> string \<Rightarrow> file_record list \<Rightarrow> string \<Rightarrow> (string, 'w) io" where
  "createTree remote owner repo baseTreeSHA files token =
     await (createBlobs remote owner repo token files [])
       (\<lambda>tree. await (axios remote token (PostTree owner repo baseTreeSHA tree))
          (\<lambda>res. return (data_sha res)))"

definition createCommit ::
  "'w remote \<Rightarrow> string \<Rightarrow> string \<Rightarrow> string \<Rightarrow> string \<Rightarrow> string \<Rightarrow> string \<Rightarrow> (string, 'w) io" where
  "createCommit remote owner repo parentSHA treeSHA message token =
     await (axios remote token (PostCommit owner repo message [parentSHA] treeSHA))
       (\<lambda>res. return (data_sha res))"

definition updateBranch ::
  "'w remote \<Rightarrow> string \<Rightarrow> string \<Rightarrow> string \<Rightarrow> string \<Rightarrow> string \<Rightarrow> (unit, 'w) io" where
  "updateBranch remote owner repo branch commitSHA token =
     await (axios remote token (PatchRef owner repo branch commitSHA True)) (\<lambda>_. return ())"

definition createBranch ::
  "'w remote \<Rightarrow> string \<Rightarrow> string \<Rightarrow> string \<Rightarrow> string \<Rightarrow> string \<Rightarrow> (unit, 'w) io" where
  "createBranch remote owner repo newBranch baseSHA token =
     try_catch
       (await (axios remote token (PostRef owner repo (''refs/heads/'' @ newBranch) baseSHA))
          (\<lambda>_. return ()))
       (\<lambda>error. if statusOf error = Some 422 then return () else throw error)"

record repository =
  repository_name :: string
  repository_fullName :: string
  repository_htmlUrl :: string
  repository_cloneUrl :: string
  repository_owner :: string

text \<open>
  \<open>org ? ... : ...\<close> treats the empty string like a missing organisation, so the
  request carries the organisation only when it is non-empty.
\<close>

definition createRepository ::
  "'w remote \<Rightarrow> string \<Rightarrow> bool \<Rightarrow> string option \<Rightarrow> string \<Rightarrow> string option
   \<Rightarrow> (repository, 'w) io" where
  "createRepository remote name isPrivate description token org =
     try_catch
       (await (axios remote token
                 (PostRepo (if org = Some [] then None else org) name description isPrivate True))
          (\<lambda>res. return \<lparr>repository_name = data_name res,
                           repository_fullName = data_full_name res,
                           repository_htmlUrl = data_html_url res,
                           repository_cloneUrl = data_clone_url res,
                           repository_owner = data_owner_login res\<rparr>))
       (\<lambda>error. throw error)"

record token_info =
  token_login :: string
  token_scopes :: "string list"

definition verifyToken :: "'w remote \<Rightarrow> string \<Rightarrow> (token_info, 'w) io" where
  "verifyToken remote token =
     try_catch
       (await (axios remote token GetUser)
          (\<lambda>res. let scopes = (case header_oauth_scopes res of None \<Rightarrow> [] | Some h \<Rightarrow> h)
                  in return \<lparr>token_login = data_login res,
                              token_scopes = map trim (js_split (CHR '','') scopes)\<rparr>))
       (\<lambda>error. throw (Error (''GitHub token verification failed: '' @ messageOf error)))"

section \<open>The repository tree walker\<close>

text \<open>
  \<open>FetchRepositoryConfig\<close>: every field is optional. A custom filter may throw; it then
  returns what it throws.
\<close>

record FetchRepositoryConfig =
  includeExtensions :: "string list option"
  excludePatterns :: "string list option"
  maxFileSize :: "int option"
  includeBinary :: "bool option"
  customFilter :: "(string \<Rightarrow> string \<Rightarrow> thrown + bool) option"

text \<open>\<open>config || {}\<close> and the defaults of the destructuring.\<close>

definition emptyConfig :: FetchRepositoryConfig where
  "emptyConfig =
     \<lparr>includeExtensions = None, excludePatterns = None, maxFileSize = None,
      includeBinary = None, customFilter = None\<rparr>"

definition maxFileSizeOf :: "FetchRepositoryConfig \<Rightarrow> int" where
  "maxFileSizeOf config = (case maxFileSize config of None \<Rightarrow> 1024 * 1024 | Some n \<Rightarrow> n)"

definition includeBinaryOf :: "FetchRepositoryConfig \<Rightarrow> bool" where
  "includeBinaryOf config = (case includeBinary config of None \<Rightarrow> False | Some b \<Rightarrow> b)"

text \<open>
  What happens to one blob of the tree: it is pushed onto \<open>files\<close>, or skipped for the
  reason the log line names.
\<close>

datatype skip_reason = Excluded | ExtensionMismatch | TooLarge | Binary | CustomFilter

datatype outcome = Fetched file_record | Skipped skip_reason

text \<open>The custom filter and the push onto \<open>files\<close>, the end of the \<open>try\<close> block.\<close>

definition applyCustomFilter ::
  "FetchRepositoryConfig \<Rightarrow> tree_item \<Rightarrow> string \<Rightarrow> (thrown, outcome, 'w) task" where
  "applyCustomFilter config item content =
     (case customFilter config of
        None \<Rightarrow> return (Fetched \<lparr>file_path = item_path item, file_content = content\<rparr>)
      | Some accepts \<Rightarrow>
          (case accepts (item_path item) content of
             Inl e \<Rightarrow> throw e
           | Inr accepted \<Rightarrow>
               if \<not> accepted then return (Skipped CustomFilter)
               else return (Fetched \<lparr>file_path = item_path item, file_content = content\<rparr>)))"

text \<open>
  The body of the inner \<open>try\<close>, for one item of type blob.
  \<open>Buffer.from(content, 'base64').toString('utf-8')\<close> belongs to the platform and is the
  parameter \<open>base64ToUtf8\<close>; \<open>None\<close> stands for a decoding that throws.
\<close>

definition fetchEntry ::
  "'w remote \<Rightarrow> regexp_engine \<Rightarrow> (string \<Rightarrow> string option) \<Rightarrow> string
   \<Rightarrow> FetchRepositoryConfig \<Rightarrow> tree_item \<Rightarrow> (thrown, outcome, 'w) task" where
  "fetchEntry remote engine base64ToUtf8 token config item =
     (case (case excludePatterns config of
              None \<Rightarrow> Inr False
            | Some patterns \<Rightarrow> someExcluded engine patterns (item_path item)) of
        Inl e \<Rightarrow> throw (ThrownObject e)
      | Inr excluded \<Rightarrow>
          if excluded then return (Skipped Excluded)
          else if (case includeExtensions config of
                     None \<Rightarrow> False
                   | Some extensions \<Rightarrow>
                       length extensions > 0 \<and> extensionRejected extensions (item_path item))
          then return (Skipped ExtensionMismatch)
          else
            await (thrownObject (axios remote token (GetUrl (item_url item))))
              (\<lambda>contentRes.
                 if data_size contentRes > maxFileSizeOf config then return (Skipped TooLarge)
                 else (case base64ToUtf8 (data_content contentRes) of
                         None \<Rightarrow>
                           if \<not> includeBinaryOf config then return (Skipped Binary)
                           else applyCustomFilter config item (data_content contentRes)
                       | Some content \<Rightarrow> applyCustomFilter config item content)))"

text \<open>
  The loop over the tree, with its two accumulators. Only blobs are processed. The
  \<open>catch\<close> of the inner \<open>try\<close> first logs \<open>error.message\<close>, then counts a skip, and the loop
  goes on with the next item. Reading \<open>message\<close> of a thrown \<open>null\<close> or \<open>undefined\<close> throws a
  \<open>TypeError\<close> (with the message of the engine), which leaves the loop before the skip is
  counted.
\<close>

fun walkTree ::
  "(tree_item \<Rightarrow> (thrown, outcome, 'w) task) \<Rightarrow> tree_item list \<Rightarrow> file_record list \<Rightarrow> nat
   \<Rightarrow> (file_record list \<times> nat, 'w) io" where
  "walkTree entry [] files skippedCount s = (Inr (files, skippedCount), s)"
| "walkTree entry (item # tree) files skippedCount s =
     (if item_type item = ''blob'' then
        (case entry item s of
           (Inr (Fetched f), s') \<Rightarrow> walkTree entry tree (files @ [f]) skippedCount s'
         | (Inr (Skipped reason), s') \<Rightarrow> walkTree entry tree files (skippedCount + 1) s'
         | (Inl (ThrownObject error), s') \<Rightarrow> walkTree entry tree files (skippedCount + 1) s'
         | (Inl ThrownNull, s') \<Rightarrow>
             (Inl (TypeError ''Cannot read properties of null (reading 'message')''), s')
         | (Inl ThrownUndefined, s') \<Rightarrow>
             (Inl (TypeError ''Cannot read properties of undefined (reading 'message')''), s'))
      else walkTree entry tree files skippedCount s)"

text \<open>
  \<open>fetchAllRepositoryFiles\<close> returns the files; the skip count it reports in its last log
  line is returned with them. \<open>branch\<close> and \<open>config\<close> are optional.
\<close>

definition fetchAllRepositoryFiles ::
  "'w remote \<Rightarrow> regexp_engine \<Rightarrow> (string \<Rightarrow> string option) \<Rightarrow> string \<Rightarrow> string \<Rightarrow> string
   \<Rightarrow> string option \<Rightarrow> FetchRepositoryConfig option \<Rightarrow> (file_record list \<times> nat, 'w) io" where
  "fetchAllRepositoryFiles remote engine base64ToUtf8 owner repo token branchArg configArg =
     (let branch = (case branchArg of None \<Rightarrow> ''main'' | Some b \<Rightarrow> b);
          config = (case configArg of None \<Rightarrow> emptyConfig | Some c \<Rightarrow> c)
      in try_catch
           (await (axios remote token (GetTree owner repo branch))
              (\<lambda>res. walkTree (fetchEntry remote engine base64ToUtf8 token config)
                        (data_tree res) [] 0))
           (\<lambda>error.
              if statusOf error = Some 404
              then throw (Error (''Repository '' @ owner @ ''/'' @ repo @ '' or branch ''
                                 @ branch @ '' not found''))
              else if statusOf error = Some 409
              then throw (Error (''Repository '' @ owner @ ''/'' @ repo @ '' is empty''))
              else throw error))"

definition sourceExtensions :: "string list" where
  "sourceExtensions =
     [''js'', ''jsx'', ''ts'', ''tsx'', ''vue'', ''svelte'',
      ''py'', ''java'', ''cpp'', ''c'', ''h'', ''hpp'',
      ''cs'', ''php'', ''rb'', ''go'', ''rs'', ''swift'',
      ''kt'', ''scala'', ''clj'', ''hs'', ''ml'', ''sh'',
      ''sql'', ''html'', ''css'', ''scss'', ''less'', ''sass'',
      ''json'', ''xml'', ''yaml'', ''yml'', ''toml'', ''ini'',
      ''md'', ''txt'', ''dockerfile'', ''gitignore'']"

definition sourceCodeConfig :: FetchRepositoryConfig where
  "sourceCodeConfig =
     \<lparr>includeExtensions = Some sourceExtensions,
      excludePatterns = Some [''node_modules/*'', ''dist/*'', ''build/*'', ''*.min.js'',
                              ''*.min.css'', ''package-lock.json'', ''yarn.lock''],
      maxFileSize = None, includeBinary = None, customFilter = None\<rparr>"

definition fetchSourceCodeFiles ::
  "'w remote \<Rightarrow> regexp_engine \<Rightarrow> (string \<Rightarrow> string option) \<Rightarrow> string \<Rightarrow> string \<Rightarrow> string
   \<Rightarrow> string option \<Rightarrow> (file_record list \<times> nat, 'w) io" where
  "fetchSourceCodeFiles remote engine base64ToUtf8 owner repo token branchArg =
     fetchAllRepositoryFiles remote engine base64ToUtf8 owner repo token
       (Some (case branchArg of None \<Rightarrow> ''main'' | Some b \<Rightarrow> b)) (Some sourceCodeConfig)"

section \<open>The commit publisher\<close>

text \<open>\<open>a || b\<close> on strings: the empty string and \<open>undefined\<close> both give way to \<open>b\<close>.\<close>

definition orElse :: "string option \<Rightarrow> string \<Rightarrow> string" where
  "orElse a b = (case a of None \<Rightarrow> b | Some x \<Rightarrow> if x = [] then b else x)"

fun join :: "string \<Rightarrow> string list \<Rightarrow> string" where
  "join sep [] = []"
| "join sep [x] = x"
| "join sep (x # y # ys) = x @ sep @ join sep (y # ys)"

text \<open>The message built in the \<open>catch\<close> of \<open>pushFilesAsCommit\<close> for a 422.\<close>

definition describeDetail :: "error_detail \<Rightarrow> string" where
  "describeDetail e =
     orElse (detail_resource e) ''unknown'' @ '': ''
     @ orElse (detail_message e) (orElse (detail_code e) (detail_json e))"

definition detailedError :: "error_response \<Rightarrow> string" where
  "detailedError r =
     ''GitHub API validation error: '' @ orElse (response_message r) ''Validation failed''
     @ (if length (response_errors r) > 0
        then [CHR 0x0A] @ ''Details: '' @ join '', '' (map describeDetail (response_errors r))
        else [])"

definition pushCatch :: "js_error \<Rightarrow> ('a, 'w) io" where
  "pushCatch error =
     (case error of
        AxiosError f \<Rightarrow>
          (case failure_response f of
             Some r \<Rightarrow>
               if response_status r = 422 then throw (Error (detailedError r)) else throw error
           | None \<Rightarrow> throw error)
      | _ \<Rightarrow> throw error)"

record push_result =
  result_commitSHA :: string
  result_repoUrl :: string
  result_branchUrl :: string

text \<open>
  The \<open>try\<close> block of \<open>pushFilesAsCommit\<close>. The token information only feeds warnings,
  the pause of two seconds after the creation of a repository changes nothing here, and
  the assignment \<open>baseBranch = newBranch\<close> is the binding of \<open>targetBranch\<close>.
\<close>

definition pushTry ::
  "'w remote \<Rightarrow> string \<Rightarrow> string \<Rightarrow> string \<Rightarrow> string \<Rightarrow> file_record list \<Rightarrow> string
   \<Rightarrow> string \<Rightarrow> string option \<Rightarrow> (push_result, 'w) io" where
  "pushTry remote owner repo baseBranch newBranch files commitMessage token repoDescription =
     await (verifyToken remote token) (\<lambda>tokenInfo.
     await (repositoryExists remote owner repo token) (\<lambda>repoExists.
     await (if \<not> repoExists
            then await (createRepository remote repo False
                          (Some (orElse repoDescription ''Generated repository from v0''))
                          token None)
                   (\<lambda>newRepo. return ())
            else return ()) (\<lambda>_.
     await (getBranchSHA remote owner repo baseBranch token) (\<lambda>baseSHA.
     await (if newBranch \<noteq> []
            then createBranch remote owner repo newBranch baseSHA token
            else return ()) (\<lambda>_.
     let targetBranch = (if newBranch \<noteq> [] then newBranch else baseBranch) in
     await (axios remote token (GetCommit owner repo baseSHA)) (\<lambda>res.
     let baseTreeSHA = data_tree_sha res;
         validated = validatedFiles files
     in if length validated = 0
        then throw (Error ''No valid files to commit after validation'')
        else
          await (createTree remote owner repo baseTreeSHA validated token) (\<lambda>newTreeSHA.
          await (createCommit remote owner repo baseSHA newTreeSHA commitMessage token)
            (\<lambda>commitSHA.
          await (updateBranch remote owner repo targetBranch commitSHA token) (\<lambda>_.
          return \<lparr>result_commitSHA = commitSHA,
                   result_repoUrl = ''https://github.com/'' @ owner @ ''/'' @ repo,
                   result_branchUrl = ''https://github.com/'' @ owner @ ''/'' @ repo
                                      @ ''/tree/'' @ targetBranch\<rparr>)))))))))"

text \<open>\<open>pushFilesAsCommit\<close>: the \<open>try\<close> block under its \<open>catch\<close>.\<close>

definition pushFilesAsCommit ::
  "'w remote \<Rightarrow> string \<Rightarrow> string \<Rightarrow> string \<Rightarrow> string \<Rightarrow> file_record list \<Rightarrow> string
   \<Rightarrow> string \<Rightarrow> string option \<Rightarrow> (push_result, 'w) io" where
  "pushFilesAsCommit remote owner repo baseBranch newBranch files commitMessage token
     repoDescription =
     try_catch
       (pushTry remote owner repo baseBranch newBranch files commitMessage token repoDescription)
       pushCatch"

section \<open>Logs of a run\<close>

text \<open>The request of an exchange, and whether the remote service answered it with success.\<close>

definition request_of :: "exchange \<Rightarrow> request" where
  "request_of x = fst (snd x)"

definition answered :: "exchange \<Rightarrow> bool" where
  "answered x = (case snd (snd x) of Inl f \<Rightarrow> False | Inr res \<Rightarrow> True)"

text \<open>The requests that create a blob, a tree or a commit, or update a ref.\<close>

fun mutates :: "request \<Rightarrow> bool" where
  "mutates (PostBlob owner repo content encoding) = True"
| "mutates (PostTree owner repo base_tree tree) = True"
| "mutates (PostCommit owner repo message parents tree) = True"
| "mutates (PatchRef owner repo branch sha force) = True"
| "mutates _ = False"

fun readsCommit :: "request \<Rightarrow> bool" where
  "readsCommit (GetCommit owner repo sha) = True"
| "readsCommit _ = False"

text \<open>
  \<open>quiet m P\<close>: every run of \<open>m\<close> only appends exchanges to the log, each of them
  satisfying \<open>P\<close>. \<open>ensures m Q\<close>: every run of \<open>m\<close> only appends exchanges, and \<open>Q\<close> holds
  of its result and of what it appended.
\<close>

definition quiet :: "('a, 'w) io \<Rightarrow> (exchange \<Rightarrow> bool) \<Rightarrow> bool" where
  "quiet m P \<longleftrightarrow>
     (\<forall>s r s'. m s = (r, s') \<longrightarrow> (\<exists>ext. snd s' = snd s @ ext \<and> (\<forall>x\<in>set ext. P x)))"

definition ensures :: "('a, 'w) io \<Rightarrow> (js_error + 'a \<Rightarrow> exchange list \<Rightarrow> bool) \<Rightarrow> bool" where
  "ensures m Q \<longleftrightarrow> (\<forall>s r s'. m s = (r, s') \<longrightarrow> (\<exists>ext. snd s' = snd s @ ext \<and> Q r ext))"

definition benign :: "exchange \<Rightarrow> bool" where
  "benign x \<longleftrightarrow> \<not> mutates (request_of x) \<and> \<not> readsCommit (request_of x)"

definition stopsAtValidation :: "js_error + 'a \<Rightarrow> exchange list \<Rightarrow> bool" where
  "stopsAtValidation r ext \<longleftrightarrow>
     (\<exists>e. r = Inl e
        \<and> (\<forall>x\<in>set ext. \<not> mutates (request_of x))
        \<and> (\<forall>x\<in>set ext. readsCommit (request_of x) \<and> answered x \<longrightarrow>
              e = Error ''No valid files to commit after validation'' \<and> x = last ext))"

text \<open>A request that creates a blob declares the encoding \<open>utf-8\<close>.\<close>

fun declaresUtf8 :: "request \<Rightarrow> bool" where
  "declaresUtf8 (PostBlob owner repo content encoding) = (encoding = ''utf-8'')"
| "declaresUtf8 _ = True"

section \<open>Example inputs\<close>

text \<open>
  A small remote service to run the model on. Its state is the list of the refs that
  exist. It knows one user, does not find the repository \<open>fresh\<close> and answers the read
  of its branch head, like every read of the repository \<open>empty\<close>, with a 409, lists one
  image in the tree of the repository \<open>assets\<close> and three blobs in every other tree,
  serves the url of a blob as its content, and rejects the creation of a ref that exists
  with a 422.
\<close>

definition blankResponse :: response where
  "blankResponse =
     \<lparr>data_sha = [], data_object_sha = [], data_tree_sha = [], data_tree = [], data_size = 0,
      data_content = [], data_login = [], header_oauth_scopes = None, data_name = [],
      data_full_name = [], data_html_url = [], data_clone_url = [], data_owner_login = []\<rparr>"

definition httpFailure :: "nat \<Rightarrow> axios_failure" where
  "httpFailure status =
     \<lparr>failure_message = ''Request failed'',
      failure_response =
        Some \<lparr>response_status = status, response_message = None, response_errors = []\<rparr>\<rparr>"

definition blobItem :: "string \<Rightarrow> tree_item" where
  "blobItem p = \<lparr>item_path = p, item_type = ''blob'', item_url = p\<rparr>"

fun demoRemote :: "string list remote" where
  "demoRemote token GetUser refs =
     (Inr (blankResponse\<lparr>data_login := ''octo'', header_oauth_scopes := Some ''repo, gist''\<rparr>), refs)"
| "demoRemote token (GetRepo owner repo) refs =
     (if repo = ''fresh'' then Inl (httpFailure 404) else Inr blankResponse, refs)"
| "demoRemote token (GetTree owner repo branch) refs =
     (if repo = ''empty'' then Inl (httpFailure 409)
      else if repo = ''assets''
      then Inr (blankResponse\<lparr>data_tree :=
                  [\<lparr>item_path = ''logo.png'', item_type = ''blob'', item_url = ''iVBORw0KGgo=''\<rparr>]\<rparr>)
      else Inr (blankResponse\<lparr>data_tree :=
                  [blobItem ''a.ts'', blobItem ''b.py'', blobItem ''c.md'']\<rparr>),
      refs)"
| "demoRemote token (GetUrl url) refs =
     (Inr (blankResponse\<lparr>data_size := int (length url), data_content := url\<rparr>), refs)"
| "demoRemote token (GetRef owner repo branch) refs =
     (if repo = ''empty'' \<or> repo = ''fresh'' then Inl (httpFailure 409)
      else if (''refs/heads/'' @ branch) \<in> set refs
      then Inr (blankResponse\<lparr>data_object_sha := ''c0''\<rparr>)
      else Inl (httpFailure 404), refs)"
| "demoRemote token (GetCommit owner repo sha) refs =
     (Inr (blankResponse\<lparr>data_tree_sha := ''t0''\<rparr>), refs)"
| "demoRemote token (PostBlob owner repo content encoding) refs =
     (Inr (blankResponse\<lparr>data_sha := ''b''\<rparr>), refs)"
| "demoRemote token (PostTree owner repo base_tree tree) refs =
     (Inr (blankResponse\<lparr>data_sha := ''t1''\<rparr>), refs)"
| "demoRemote token (PostCommit owner repo message parents tree) refs =
     (Inr (blankResponse\<lparr>data_sha := ''c1''\<rparr>), refs)"
| "demoRemote token (PatchRef owner repo branch sha force) refs = (Inr blankResponse, refs)"
| "demoRemote token (PostRef owner repo ref sha) refs =
     (if repo = ''empty'' then (Inl (httpFailure 409), refs)
      else if ref \<in> set refs then (Inl (httpFailure 422), refs)
      else (Inr blankResponse, refs @ [ref]))"
| "demoRemote token (PostRepo org name description isPrivate auto_init) refs =
     (Inr blankResponse, refs)"

text \<open>
  A regular expression engine that rejects every source the model leaves to it, and a
  decoder that fails on one payload and returns every other string as it is.
\<close>

definition noEngine :: regexp_engine where
  "noEngine source s = Inl (SyntaxError source)"

definition demoDecode :: "string \<Rightarrow> string option" where
  "demoDecode payload = (if payload = ''iVBORw0KGgo='' then None else Some payload)"

text \<open>
  Two custom filters that throw on the path \<open>b.py\<close>: the first an \<open>Error\<close>, the second
  \<open>undefined\<close>.
\<close>

definition throwingFilter :: "string \<Rightarrow> string \<Rightarrow> thrown + bool" where
  "throwingFilter p content =
     (if p = ''b.py'' then Inl (ThrownObject (Error ''filter failed'')) else Inr True)"

definition undefinedFilter :: "string \<Rightarrow> string \<Rightarrow> thrown + bool" where
  "undefinedFilter p content = (if p = ''b.py'' then Inl ThrownUndefined else Inr True)"

text \<open>
  Four files for the validator: a path with backslashes and surrounding blanks, a path
  with a question mark, a blank content, and a file that needs no change.
\<close>

definition demoFiles :: "file_record list" where
  "demoFiles =
     [\<lparr>file_path = '' src'' @ [CHR 0x5C] @ ''lib'' @ [CHR 0x5C] @ ''a.ts  '',
       file_content = ''export {}''\<rparr>,
      \<lparr>file_path = ''what?.md'', file_content = ''text''\<rparr>,
      \<lparr>file_path = ''empty.txt'', file_content = ''  ''\<rparr>,
      \<lparr>file_path = ''README.md'', file_content = ''# readme''\<rparr>]"

text \<open>Two files the validator drops: a blank content and a path with a star.\<close>

definition rejectedFiles :: "file_record list" where
  "rejectedFiles =
     [\<lparr>file_path = ''notes.txt'', file_content = ''   ''\<rparr>,
      \<lparr>file_path = ''a*b.ts'', file_content = ''export {}''\<rparr>]"

section \<open>Properties of the file validator\<close>

lemma all_dropWhile: "(\<forall>x\<in>set (dropWhile P s). P x) \<longleftrightarrow> (\<forall>x\<in>set s. P x)"
  by (induction s) auto

lemma trim_eq_Nil_iff: "trim s = [] \<longleftrightarrow> (\<forall>c\<in>set s. isWhiteSpace c)"
  by (simp add: trim_def dropWhile_eq_Nil_conv all_dropWhile)

lemma set_trim_subset: "set (trim s) \<subseteq> set s"
  by (auto simp: trim_def dest!: set_dropWhileD)

lemma last_dropWhile: "dropWhile P xs \<noteq> [] \<Longrightarrow> last (dropWhile P xs) = last xs"
  by (induction xs) auto

lemma last_trim: "trim s \<noteq> [] \<Longrightarrow> \<not> isWhiteSpace (last (trim s))"
  by (simp add: trim_def last_rev hd_dropWhile)

lemma hd_trim: "trim s \<noteq> [] \<Longrightarrow> \<not> isWhiteSpace (hd (trim s))"
proof -
  assume ne: "trim s \<noteq> []"
  let ?t = "dropWhile isWhiteSpace s"
  from ne have d: "dropWhile isWhiteSpace (rev ?t) \<noteq> []" by (simp add: trim_def)
  have t: "?t \<noteq> []"
  proof
    assume "?t = []"
    with d show False by simp
  qed
  have "hd (trim s) = last (dropWhile isWhiteSpace (rev ?t))"
    using d by (simp add: trim_def hd_rev)
  also have "\<dots> = last (rev ?t)" using d by (rule last_dropWhile)
  also have "\<dots> = hd ?t" using t by (simp add: last_rev)
  finally show ?thesis using t hd_dropWhile [of isWhiteSpace s] by simp
qed

lemma slash_plain: "\<not> isWhiteSpace (CHR ''/'')" "\<not> invalidChars (CHR ''/'')" "\<not> isWhiteSpace (CHR 0x5C)"
  by (simp_all add: isWhiteSpace_def invalidChars_def)

lemma replaceBackslashes_nonblank:
  "\<exists>c\<in>set s. \<not> isWhiteSpace c \<Longrightarrow> \<exists>c\<in>set (replaceBackslashes s). \<not> isWhiteSpace c"
  by (induction s) (auto simp: replaceBackslashes_def slash_plain)

lemma replaceBackslashes_valid:
  "\<not> list_ex invalidChars s \<Longrightarrow> \<not> list_ex invalidChars (replaceBackslashes s)"
  by (auto simp: replaceBackslashes_def list_ex_iff slash_plain)

lemma replaceBackslashes_none: "CHR 0x5C \<notin> set (replaceBackslashes s)"
  by (auto simp: replaceBackslashes_def)

lemma validatedFiles_demo:
  "validatedFiles demoFiles =
     [\<lparr>file_path = ''src/lib/a.ts'', file_content = ''export {}''\<rparr>,
      \<lparr>file_path = ''README.md'', file_content = ''# readme''\<rparr>]"
  by (simp add: demoFiles_def validatedFiles_def keepFile_def normalizeFile_def trim_def isWhiteSpace_def invalidChars_def replaceBackslashes_def)

text \<open>
  Claim C4. Whatever list of files the validator is given, every record of its output
  has a path that is not empty, a content that is not only white space, a path without
  any of the characters \<open>< > : " | ? *\<close> and without control characters, a path
  without a backslash, and a path that neither starts nor ends with white space.
\<close>

theorem validatedFiles_wellformed:
  "\<forall>f \<in> set (validatedFiles files).
     file_path f \<noteq> [] \<and> trim (file_content f) \<noteq> []
     \<and> \<not> list_ex invalidChars (file_path f)
     \<and> CHR 0x5C \<notin> set (file_path f)
     \<and> \<not> isWhiteSpace (hd (file_path f)) \<and> \<not> isWhiteSpace (last (file_path f))"
proof
  fix f assume "f \<in> set (validatedFiles files)"
  then obtain g where g: "keepFile g" and f: "f = normalizeFile g"
    by (auto simp: validatedFiles_def)
  from g have c: "trim (file_content g) \<noteq> []" and p: "trim (file_path g) \<noteq> []"
    and v: "\<not> list_ex invalidChars (file_path g)"
    by (auto simp: keepFile_def split: if_splits)
  let ?q = "replaceBackslashes (file_path g)"
  from p have ne: "trim ?q \<noteq> []"
    using replaceBackslashes_nonblank [of "file_path g"] by (simp add: trim_eq_Nil_iff)
  have sub: "set (trim ?q) \<subseteq> set ?q" by (rule set_trim_subset)
  have "\<not> list_ex invalidChars (trim ?q)"
    using replaceBackslashes_valid [OF v] sub by (auto simp: list_ex_iff)
  moreover have "CHR 0x5C \<notin> set (trim ?q)"
    using replaceBackslashes_none [of "file_path g"] sub by blast
  ultimately show "file_path f \<noteq> [] \<and> trim (file_content f) \<noteq> []
     \<and> \<not> list_ex invalidChars (file_path f)
     \<and> CHR 0x5C \<notin> set (file_path f)
     \<and> \<not> isWhiteSpace (hd (file_path f)) \<and> \<not> isWhiteSpace (last (file_path f))"
    using ne c hd_trim [OF ne] last_trim [OF ne] by (simp add: f normalizeFile_def)
qed

theorem validatedFiles_wellformed_witness:
  "length (validatedFiles demoFiles) = 2
   \<and> list_all (\<lambda>f. file_path f \<noteq> [] \<and> trim (file_content f) \<noteq> []
                   \<and> \<not> list_ex invalidChars (file_path f)
                   \<and> CHR 0x5C \<notin> set (file_path f)
                   \<and> \<not> isWhiteSpace (hd (file_path f))
                   \<and> \<not> isWhiteSpace (last (file_path f)))
        (validatedFiles demoFiles)"
proof -
  have "length (validatedFiles demoFiles) = 2"
    by (simp add: validatedFiles_demo)
  with validatedFiles_wellformed [of demoFiles] show ?thesis
    unfolding list_all_iff by blast
qed

section \<open>Rules for the logs of runs\<close>

lemmas io_defs = return_def throw_def await_def try_catch_def axios_def

lemmas client_defs = verifyToken_def repositoryExists_def createRepository_def getBranchSHA_def
  createBranch_def createBlob_def createTree_def createCommit_def updateBranch_def

lemmas demo_defs = blankResponse_def httpFailure_def blobItem_def noEngine_def demoDecode_def

lemmas walker_defs = Let_def char_of_def bit_0 fetchAllRepositoryFiles_def fetchEntry_def
  thrownObject_def applyCustomFilter_def emptyConfig_def extensionRejected_def fileExtension_def pop_def
  toLowerCase_def toLowerChar_def maxFileSizeOf_def includeBinaryOf_def

lemmas exclude_defs = sourceCodeConfig_def sourceExtensions_def regExpTest_def
  globToRegExpSource_def replaceStars_def replaceQuestionMarks_def syntaxCharacter_def

lemma quiet_return: "quiet (return x) P"
  by (simp add: quiet_def return_def)

lemma quiet_throw: "quiet (throw e) P"
  by (simp add: quiet_def throw_def)

lemma quiet_axios: "(\<And>rep. P (token, rq, rep)) \<Longrightarrow> quiet (axios remote token rq) P"
  by (auto simp: quiet_def axios_def split: prod.splits sum.splits)

lemma quiet_await: "quiet m P \<Longrightarrow> (\<And>x. quiet (k x) P) \<Longrightarrow> quiet (await m k) P"
  unfolding quiet_def await_def
  by (fastforce split: prod.splits sum.splits)

lemma quiet_try_catch: "quiet m P \<Longrightarrow> (\<And>e. quiet (h e) P) \<Longrightarrow> quiet (try_catch m h) P"
  unfolding quiet_def try_catch_def
  by (fastforce split: prod.splits sum.splits)

lemma quiet_if: "quiet a P \<Longrightarrow> quiet b P \<Longrightarrow> quiet (if c then a else b) P"
  by simp

lemmas quiet_intros = quiet_return quiet_throw quiet_axios quiet_await quiet_try_catch quiet_if


lemma quiet_verifyToken:
  "(\<And>rep. P (token, GetUser, rep)) \<Longrightarrow> quiet (verifyToken remote token) P"
  unfolding verifyToken_def Let_def by (intro quiet_intros)

lemma quiet_repositoryExists:
  "(\<And>rep. P (token, GetRepo owner repo, rep)) \<Longrightarrow> quiet (repositoryExists remote owner repo token) P"
  unfolding repositoryExists_def by (intro quiet_intros)

lemma quiet_createRepository:
  "(\<And>rep org'. P (token, PostRepo org' name description isPrivate True, rep))
   \<Longrightarrow> quiet (createRepository remote name isPrivate description token org) P"
  unfolding createRepository_def by (intro quiet_intros)

lemma quiet_getBranchSHA:
  "(\<And>rep. P (token, GetRef owner repo branch, rep))
   \<Longrightarrow> quiet (getBranchSHA remote owner repo branch token) P"
  unfolding getBranchSHA_def by (intro quiet_intros)

lemma quiet_createBranch:
  "(\<And>rep. P (token, PostRef owner repo (''refs/heads/'' @ newBranch) baseSHA, rep))
   \<Longrightarrow> quiet (createBranch remote owner repo newBranch baseSHA token) P"
  unfolding createBranch_def by (intro quiet_intros)

lemma quiet_createBlob:
  "(\<And>reply. P (token, PostBlob owner repo content ''utf-8'', reply))
   \<Longrightarrow> quiet (createBlob remote owner repo content token) P"
  unfolding createBlob_def by (intro quiet_intros)

lemma quiet_createBlobs:
  "(\<And>content reply. P (token, PostBlob owner repo content ''utf-8'', reply))
   \<Longrightarrow> quiet (createBlobs remote owner repo token files tree) P"
  by (induction files arbitrary: tree) (auto intro!: quiet_intros quiet_createBlob)

lemma quiet_createTree:
  "(\<And>content reply. P (token, PostBlob owner repo content ''utf-8'', reply))
   \<Longrightarrow> (\<And>tree reply. P (token, PostTree owner repo baseTreeSHA tree, reply))
   \<Longrightarrow> quiet (createTree remote owner repo baseTreeSHA files token) P"
  unfolding createTree_def by (intro quiet_intros quiet_createBlobs)

lemma quiet_createCommit:
  "(\<And>reply. P (token, PostCommit owner repo message [parentSHA] treeSHA, reply))
   \<Longrightarrow> quiet (createCommit remote owner repo parentSHA treeSHA message token) P"
  unfolding createCommit_def by (intro quiet_intros)

lemma quiet_updateBranch:
  "(\<And>reply. P (token, PatchRef owner repo branch commitSHA True, reply))
   \<Longrightarrow> quiet (updateBranch remote owner repo branch commitSHA token) P"
  unfolding updateBranch_def by (intro quiet_intros)

lemma quiet_pushCatch: "quiet (pushCatch e) P"
  by (auto simp: pushCatch_def intro: quiet_intros split: js_error.splits option.splits)

section \<open>Publishing when no file passes the validator\<close>

lemma stops_step:
  assumes m: "quiet m benign" and k: "\<And>x. ensures (k x) stopsAtValidation"
  shows "ensures (await m k) stopsAtValidation"
  unfolding ensures_def
proof (intro allI impI)
  fix s r s' assume run: "await m k s = (r, s')"
  obtain r1 s1 where m1: "m s = (r1, s1)" by (cases "m s")
  from m m1 obtain e1 where e1: "snd s1 = snd s @ e1" "\<forall>x\<in>set e1. benign x"
    unfolding quiet_def by blast
  show "\<exists>ext. snd s' = snd s @ ext \<and> stopsAtValidation r ext"
  proof (cases r1)
    case (Inl e)
    with run m1 have "r = Inl e" "s' = s1" by (simp_all add: await_def)
    with e1 show ?thesis by (auto simp: stopsAtValidation_def benign_def)
  next
    case (Inr x)
    with run m1 have "k x s1 = (r, s')" by (simp add: await_def)
    with k obtain e2 where e2: "snd s' = snd s1 @ e2" "stopsAtValidation r e2"
      unfolding ensures_def by blast
    from e2(2) obtain e where e: "r = Inl e" "\<forall>x\<in>set e2. \<not> mutates (request_of x)"
      "\<forall>x\<in>set e2. readsCommit (request_of x) \<and> answered x \<longrightarrow>
              e = Error ''No valid files to commit after validation'' \<and> x = last e2"
      unfolding stopsAtValidation_def by blast
    have "stopsAtValidation r (e1 @ e2)"
      unfolding stopsAtValidation_def
    proof (intro exI conjI ballI impI)
      show "r = Inl e" by fact
    next
      fix x assume "x \<in> set (e1 @ e2)"
      with e1(2) e(2) show "\<not> mutates (request_of x)" by (auto simp: benign_def)
    next
      fix x assume x: "x \<in> set (e1 @ e2)" and c: "readsCommit (request_of x) \<and> answered x"
      with e1(2) have "x \<in> set e2" by (auto simp: benign_def)
      with e(3) c show "e = Error ''No valid files to commit after validation''" by blast
    next
      fix x assume x: "x \<in> set (e1 @ e2)" and c: "readsCommit (request_of x) \<and> answered x"
      with e1(2) have x2: "x \<in> set e2" by (auto simp: benign_def)
      with e(3) c have "x = last e2" by blast
      moreover from x2 have "e2 \<noteq> []" by auto
      ultimately show "x = last (e1 @ e2)" by simp
    qed
    with e1 e2 show ?thesis by auto
  qed
qed

lemma stops_final:
  "ensures (await (axios remote token (GetCommit owner repo sha))
      (\<lambda>res. throw (Error ''No valid files to commit after validation'')))
     stopsAtValidation"
  unfolding ensures_def stopsAtValidation_def
  by (auto simp: await_def axios_def throw_def request_of_def answered_def split: prod.splits sum.splits)

lemma benign_simps:
  "benign (token, GetUser, rep)"
  "benign (token, GetRepo owner repo, rep)"
  "benign (token, PostRepo org name description isPrivate auto_init, rep)"
  "benign (token, GetRef owner repo branch, rep)"
  "benign (token, PostRef owner repo ref sha, rep)"
  by (simp_all add: benign_def request_of_def)

lemma pushCatch_Error: "pushCatch (Error m) = throw (Error m)"
  by (simp add: pushCatch_def)

lemma pushCatch_fails: "pushCatch e s = (r, s') \<Longrightarrow> s' = s \<and> (\<exists>e'. r = Inl e')"
  by (auto simp: pushCatch_def throw_def split: js_error.splits option.splits if_splits)

lemma stops_body:
  assumes "validatedFiles files = []"
  shows "ensures (pushTry remote owner repo baseBranch newBranch files commitMessage token
                    repoDescription) stopsAtValidation"
  unfolding pushTry_def Let_def assms
  apply (rule stops_step, rule quiet_verifyToken, rule benign_simps)
  apply (rule stops_step, rule quiet_repositoryExists, rule benign_simps)
  apply (rule stops_step)
   apply (intro quiet_intros quiet_createRepository benign_simps)
  apply (rule stops_step, rule quiet_getBranchSHA, rule benign_simps)
  apply (rule stops_step)
   apply (intro quiet_intros quiet_createBranch benign_simps)
  apply (simp add: stops_final)
  done

lemma validatedFiles_rejected: "validatedFiles rejectedFiles = []"
  by (simp add: rejectedFiles_def validatedFiles_def keepFile_def trim_def isWhiteSpace_def
      invalidChars_def)

text \<open>
  Claim C1. When the validator drops every file, \<open>pushFilesAsCommit\<close> fails on every
  remote service and from every state: no exchange of the run creates a blob, a tree or
  a commit or updates a ref, and once the run has got as far as the validator (the read
  of the base commit, the call right before it, was answered) the error is
  \<open>No valid files to commit after validation\<close> and that read is the last exchange
  of the run.
\<close>

theorem pushFilesAsCommit_no_valid_files:
  assumes "validatedFiles files = []"
      and "pushFilesAsCommit remote owner repo baseBranch newBranch files commitMessage token
             repoDescription s = (r, s')"
  shows "\<exists>e ext. r = Inl e \<and> snd s' = snd s @ ext
          \<and> (\<forall>x\<in>set ext. \<not> mutates (request_of x))
          \<and> (\<forall>x\<in>set ext. readsCommit (request_of x) \<and> answered x \<longrightarrow>
                e = Error ''No valid files to commit after validation'' \<and> x = last ext)"
proof -
  let ?body = "pushTry remote owner repo baseBranch newBranch files commitMessage token repoDescription"
  obtain r0 s0 where body: "?body s = (r0, s0)" by (cases "?body s")
  from stops_body [OF assms(1)] body obtain ext where ext: "snd s0 = snd s @ ext" "stopsAtValidation r0 ext"
    unfolding ensures_def by blast
  from ext(2) obtain e where e: "r0 = Inl e" "\<forall>x\<in>set ext. \<not> mutates (request_of x)"
      "\<forall>x\<in>set ext. readsCommit (request_of x) \<and> answered x \<longrightarrow>
              e = Error ''No valid files to commit after validation'' \<and> x = last ext"
    unfolding stopsAtValidation_def by blast
  from assms(2) body e(1) have run: "pushCatch e s0 = (r, s')"
    by (simp add: pushFilesAsCommit_def try_catch_def)
  from pushCatch_fails [OF run] obtain e' where e': "r = Inl e'" "s' = s0" by blast
  have "e = Error ''No valid files to commit after validation'' \<Longrightarrow> e' = e"
    using run e' by (simp add: pushCatch_Error throw_def)
  with e e' ext(1) show ?thesis by blast
qed

theorem pushFilesAsCommit_no_valid_files_witness:
  "validatedFiles rejectedFiles = []
   \<and> fst (pushFilesAsCommit demoRemote ''octo'' ''demo'' ''main'' [] rejectedFiles
             ''first commit'' ''tok'' None ([''refs/heads/main''], []))
       = Inl (Error ''No valid files to commit after validation'')
   \<and> map request_of
        (snd (snd (pushFilesAsCommit demoRemote ''octo'' ''demo'' ''main'' [] rejectedFiles
                     ''first commit'' ''tok'' None ([''refs/heads/main''], []))))
       = [GetUser, GetRepo ''octo'' ''demo'', GetRef ''octo'' ''demo'' ''main'',
          GetCommit ''octo'' ''demo'' ''c0'']
   \<and> list_all answered
        (snd (snd (pushFilesAsCommit demoRemote ''octo'' ''demo'' ''main'' [] rejectedFiles
                     ''first commit'' ''tok'' None ([''refs/heads/main''], []))))"
proof -
  let ?run = "pushFilesAsCommit demoRemote ''octo'' ''demo'' ''main'' [] rejectedFiles
                ''first commit'' ''tok'' None ([''refs/heads/main''], [])"
  have log: "map request_of (snd (snd ?run))
             = [GetUser, GetRepo ''octo'' ''demo'', GetRef ''octo'' ''demo'' ''main'',
                GetCommit ''octo'' ''demo'' ''c0'']"
    by (simp add: pushFilesAsCommit_def pushTry_def pushCatch_def client_defs io_defs
        validatedFiles_rejected demo_defs request_of_def Let_def)
  have ans: "list_all answered (snd (snd ?run))"
    by (simp add: pushFilesAsCommit_def pushTry_def pushCatch_def client_defs io_defs
        validatedFiles_rejected demo_defs answered_def Let_def)
  have "?run = (fst ?run, snd ?run)"
    by simp
  from pushFilesAsCommit_no_valid_files [OF validatedFiles_rejected this]
  obtain e ext where e: "fst ?run = Inl e" "snd (snd ?run) = ext"
    and stop: "\<forall>x\<in>set ext. readsCommit (request_of x) \<and> answered x \<longrightarrow>
                 e = Error ''No valid files to commit after validation'' \<and> x = last ext"
    by auto
  from log e(2) have "ext \<noteq> []" and "request_of (last ext) = GetCommit ''octo'' ''demo'' ''c0''"
    by (auto simp: last_map [symmetric])
  moreover from ans e(2) \<open>ext \<noteq> []\<close> have "answered (last ext)"
    by (simp add: list_all_iff)
  ultimately have "e = Error ''No valid files to commit after validation''"
    using stop by (metis last_in_set readsCommit.simps(1))
  with e(1) log ans show ?thesis
    using validatedFiles_rejected by blast
qed


section \<open>Publishing to a new branch\<close>

lemma quietD:
  "quiet m P \<Longrightarrow> m s = (r, s') \<Longrightarrow> \<exists>ext. snd s' = snd s @ ext \<and> (\<forall>x\<in>set ext. P x)"
  unfolding quiet_def by blast

lemma await_Inr:
  "await m k s = (Inr y, s'') \<Longrightarrow> \<exists>x s'. m s = (Inr x, s') \<and> k x s' = (Inr y, s'')"
  by (auto simp: await_def split: prod.splits sum.splits)

lemma axios_Inr:
  "axios remote token rq s = (Inr res, s') \<Longrightarrow> snd s' = snd s @ [(token, rq, Inr res)]"
  by (auto simp: axios_def split: prod.splits sum.splits)

lemma getBranchSHA_Inr:
  "getBranchSHA remote owner repo branch token s = (Inr sha, s')
   \<Longrightarrow> \<exists>head. snd s' = snd s @ [(token, GetRef owner repo branch, Inr head)]
             \<and> sha = data_object_sha head"
  by (auto simp: getBranchSHA_def return_def dest!: await_Inr axios_Inr)

lemma createBranch_log:
  "createBranch remote owner repo newBranch baseSHA token s = (r, s')
   \<Longrightarrow> \<exists>reply. snd s' = snd s @ [(token, PostRef owner repo (''refs/heads/'' @ newBranch) baseSHA, reply)]"
  by (auto simp: createBranch_def io_defs split: prod.splits sum.splits if_splits)

lemma createCommit_Inr:
  "createCommit remote owner repo parentSHA treeSHA message token s = (Inr sha, s')
   \<Longrightarrow> \<exists>res. snd s' = snd s @ [(token, PostCommit owner repo message [parentSHA] treeSHA, Inr res)]
            \<and> sha = data_sha res"
  by (auto simp: createCommit_def return_def dest!: await_Inr axios_Inr)

lemma updateBranch_Inr:
  "updateBranch remote owner repo branch commitSHA token s = (Inr u, s')
   \<Longrightarrow> \<exists>res. snd s' = snd s @ [(token, PatchRef owner repo branch commitSHA True, Inr res)]"
  by (auto simp: updateBranch_def return_def dest!: await_Inr axios_Inr)

lemma pushFilesAsCommit_Inr:
  "pushFilesAsCommit remote owner repo baseBranch newBranch files commitMessage token
     repoDescription s = (Inr result, s')
   \<Longrightarrow> pushTry remote owner repo baseBranch newBranch files commitMessage token
         repoDescription s = (Inr result, s')"
  by (auto simp: pushFilesAsCommit_def try_catch_def split: prod.splits sum.splits
      dest: pushCatch_fails)

lemma quiet_before_branch:
  "quiet (verifyToken remote token) (\<lambda>x. \<not> mutates (request_of x))"
  "quiet (repositoryExists remote owner repo token) (\<lambda>x. \<not> mutates (request_of x))"
  "quiet (if \<not> repoExists
          then await (createRepository remote repo False description token None)
                 (\<lambda>newRepo. return ())
          else return ()) (\<lambda>x. \<not> mutates (request_of x))"
  by (intro quiet_intros quiet_verifyToken quiet_repositoryExists quiet_createRepository;
      simp add: request_of_def)+

lemma await_InrE:
  assumes "await m k s = (Inr y, s'')"
  obtains x s' where "m s = (Inr x, s')" and "k x s' = (Inr y, s'')"
  using assms by (auto simp: await_def split: prod.splits sum.splits)

lemma throw_Inr: "throw e s = (Inr y, s') \<Longrightarrow> False"
  by (simp add: throw_def)

lemma pushTry_Inr:
  assumes "pushTry remote owner repo baseBranch newBranch files commitMessage token
             repoDescription s = (Inr result, s')"
  obtains tokenInfo s1 repoExists s2 s3 baseSHA s4 s5 res s6 newTreeSHA s7 commitSHA s8 s9
  where "verifyToken remote token s = (Inr tokenInfo, s1)"
    and "repositoryExists remote owner repo token s1 = (Inr repoExists, s2)"
    and "(if \<not> repoExists
          then await (createRepository remote repo False
                        (Some (orElse repoDescription ''Generated repository from v0''))
                        token None)
                 (\<lambda>newRepo. return ())
          else return ()) s2 = (Inr (), s3)"
    and "getBranchSHA remote owner repo baseBranch token s3 = (Inr baseSHA, s4)"
    and "(if newBranch \<noteq> [] then createBranch remote owner repo newBranch baseSHA token
          else return ()) s4 = (Inr (), s5)"
    and "axios remote token (GetCommit owner repo baseSHA) s5 = (Inr res, s6)"
    and "validatedFiles files \<noteq> []"
    and "createTree remote owner repo (data_tree_sha res) (validatedFiles files) token s6
           = (Inr newTreeSHA, s7)"
    and "createCommit remote owner repo baseSHA newTreeSHA commitMessage token s7
           = (Inr commitSHA, s8)"
    and "updateBranch remote owner repo (if newBranch \<noteq> [] then newBranch else baseBranch)
           commitSHA token s8 = (Inr (), s')"
    and "result = \<lparr>result_commitSHA = commitSHA,
                     result_repoUrl = ''https://github.com/'' @ owner @ ''/'' @ repo,
                     result_branchUrl = ''https://github.com/'' @ owner @ ''/'' @ repo @ ''/tree/''
                        @ (if newBranch \<noteq> [] then newBranch else baseBranch)\<rparr>"
proof -
  from assms obtain tokenInfo s1 repoExists s2 u3 s3 baseSHA s4 u5 s5 res s6
    where a: "verifyToken remote token s = (Inr tokenInfo, s1)"
      "repositoryExists remote owner repo token s1 = (Inr repoExists, s2)"
      "(if \<not> repoExists
          then await (createRepository remote repo False
                        (Some (orElse repoDescription ''Generated repository from v0''))
                        token None)
                 (\<lambda>newRepo. return ())
          else return ()) s2 = (Inr u3, s3)"
      "getBranchSHA remote owner repo baseBranch token s3 = (Inr baseSHA, s4)"
      "(if newBranch \<noteq> [] then createBranch remote owner repo newBranch baseSHA token
          else return ()) s4 = (Inr u5, s5)"
      "axios remote token (GetCommit owner repo baseSHA) s5 = (Inr res, s6)"
    and rest: "(if length (validatedFiles files) = 0
        then throw (Error ''No valid files to commit after validation'')
        else
          await (createTree remote owner repo (data_tree_sha res) (validatedFiles files) token) (\<lambda>newTreeSHA.
          await (createCommit remote owner repo baseSHA newTreeSHA commitMessage token)
            (\<lambda>commitSHA.
          await (updateBranch remote owner repo (if newBranch \<noteq> [] then newBranch else baseBranch) commitSHA token) (\<lambda>_.
          return \<lparr>result_commitSHA = commitSHA,
                   result_repoUrl = ''https://github.com/'' @ owner @ ''/'' @ repo,
                   result_branchUrl = ''https://github.com/'' @ owner @ ''/'' @ repo
                                      @ ''/tree/'' @ (if newBranch \<noteq> [] then newBranch else baseBranch)\<rparr>)))) s6 = (Inr result, s')"
    unfolding pushTry_def Let_def
    by (elim await_InrE) blast
  from rest have ne: "validatedFiles files \<noteq> []"
    by (auto dest: throw_Inr)
  with rest obtain newTreeSHA s7 commitSHA s8 u9 s9
    where b: "createTree remote owner repo (data_tree_sha res) (validatedFiles files) token s6
           = (Inr newTreeSHA, s7)"
     "createCommit remote owner repo baseSHA newTreeSHA commitMessage token s7
           = (Inr commitSHA, s8)"
     "updateBranch remote owner repo (if newBranch \<noteq> [] then newBranch else baseBranch)
           commitSHA token s8 = (Inr u9, s9)"
     "return \<lparr>result_commitSHA = commitSHA,
                   result_repoUrl = ''https://github.com/'' @ owner @ ''/'' @ repo,
                   result_branchUrl = ''https://github.com/'' @ owner @ ''/'' @ repo
                                      @ ''/tree/'' @ (if newBranch \<noteq> [] then newBranch else baseBranch)\<rparr> s9
        = (Inr result :: js_error + push_result, s')"
    by (simp only: length_0_conv if_False) (elim await_InrE, blast)
  from b(4) have "s9 = s'" and "result = \<lparr>result_commitSHA = commitSHA,
                     result_repoUrl = ''https://github.com/'' @ owner @ ''/'' @ repo,
                     result_branchUrl = ''https://github.com/'' @ owner @ ''/'' @ repo @ ''/tree/''
                        @ (if newBranch \<noteq> [] then newBranch else baseBranch)\<rparr>"
    by (simp_all add: return_def)
  with a b ne show thesis
    using that by simp
qed

text \<open>
  Claim C5. When a target branch is requested (\<open>newBranch\<close> is not empty) and the
  publish succeeds, the log of the run reads: first exchanges that create no blob, tree
  or commit and update no ref; then the read of the head of the base branch; right after
  it the creation of \<open>refs/heads/newBranch\<close> at that head commit; only then the rest,
  which ends with the creation of the commit (its parent the head of the base branch)
  and the forced update of the ref of \<open>newBranch\<close> to the new commit. The returned
  \<open>branchUrl\<close> ends in \<open>/tree/newBranch\<close>.
\<close>

theorem pushFilesAsCommit_new_branch:
  assumes nb: "newBranch \<noteq> []"
      and run: "pushFilesAsCommit remote owner repo baseBranch newBranch files commitMessage token
                  repoDescription s = (Inr result, s')"
  shows "\<exists>before head reply after tree created final.
           snd s' = snd s @ before
                    @ [(token, GetRef owner repo baseBranch, Inr head),
                       (token, PostRef owner repo (''refs/heads/'' @ newBranch)
                                 (data_object_sha head), reply)]
                    @ after
                    @ [(token, PostCommit owner repo commitMessage [data_object_sha head] tree,
                        Inr created),
                       (token, PatchRef owner repo newBranch (data_sha created) True, Inr final)]
           \<and> (\<forall>x\<in>set before. \<not> mutates (request_of x))
           \<and> result_commitSHA result = data_sha created
           \<and> result_branchUrl result
               = ''https://github.com/'' @ owner @ ''/'' @ repo @ ''/tree/'' @ newBranch"
proof -
  let ?quiet = "\<lambda>x. \<not> mutates (request_of x)"
  from pushFilesAsCommit_Inr [OF run]
  have "pushTry remote owner repo baseBranch newBranch files commitMessage token
          repoDescription s = (Inr result, s')" .
  then obtain tokenInfo s1 repoExists s2 s3 baseSHA s4 s5 res s6 newTreeSHA s7 commitSHA s8
    where v: "verifyToken remote token s = (Inr tokenInfo, s1)"
      and x: "repositoryExists remote owner repo token s1 = (Inr repoExists, s2)"
      and c: "(if \<not> repoExists
               then await (createRepository remote repo False
                             (Some (orElse repoDescription ''Generated repository from v0''))
                             token None)
                      (\<lambda>newRepo. return ())
               else return ()) s2 = (Inr (), s3)"
      and g: "getBranchSHA remote owner repo baseBranch token s3 = (Inr baseSHA, s4)"
      and b: "createBranch remote owner repo newBranch baseSHA token s4 = (Inr (), s5)"
      and r: "axios remote token (GetCommit owner repo baseSHA) s5 = (Inr res, s6)"
      and t: "createTree remote owner repo (data_tree_sha res) (validatedFiles files) token s6
                = (Inr newTreeSHA, s7)"
      and m: "createCommit remote owner repo baseSHA newTreeSHA commitMessage token s7
                = (Inr commitSHA, s8)"
      and u: "updateBranch remote owner repo newBranch commitSHA token s8 = (Inr (), s')"
      and result: "result = \<lparr>result_commitSHA = commitSHA,
                      result_repoUrl = ''https://github.com/'' @ owner @ ''/'' @ repo,
                      result_branchUrl = ''https://github.com/'' @ owner @ ''/'' @ repo
                                         @ ''/tree/'' @ newBranch\<rparr>"
    using nb by (elim pushTry_Inr) simp
  from quietD [OF quiet_before_branch(1) v] obtain e1
    where e1: "snd s1 = snd s @ e1" "\<forall>x\<in>set e1. ?quiet x" by blast
  from quietD [OF quiet_before_branch(2) x] obtain e2
    where e2: "snd s2 = snd s1 @ e2" "\<forall>x\<in>set e2. ?quiet x" by blast
  from quietD [OF quiet_before_branch(3) c] obtain e3
    where e3: "snd s3 = snd s2 @ e3" "\<forall>x\<in>set e3. ?quiet x" by blast
  from getBranchSHA_Inr [OF g] obtain head
    where head: "snd s4 = snd s3 @ [(token, GetRef owner repo baseBranch, Inr head)]"
      "baseSHA = data_object_sha head" by blast
  from createBranch_log [OF b] obtain reply
    where reply: "snd s5 = snd s4 @ [(token, PostRef owner repo (''refs/heads/'' @ newBranch) baseSHA, reply)]"
    by blast
  from axios_Inr [OF r]
  have s6: "snd s6 = snd s5 @ [(token, GetCommit owner repo baseSHA, Inr res)]" .
  from quietD [OF quiet_createTree t, of "\<lambda>x. True"] obtain e7
    where e7: "snd s7 = snd s6 @ e7" by auto
  from createCommit_Inr [OF m] obtain created
    where created: "snd s8 = snd s7 @ [(token, PostCommit owner repo commitMessage [baseSHA] newTreeSHA, Inr created)]"
      "commitSHA = data_sha created" by blast
  from updateBranch_Inr [OF u] obtain final
    where final: "snd s' = snd s8 @ [(token, PatchRef owner repo newBranch commitSHA True, Inr final)]"
    by blast
  let ?before = "e1 @ e2 @ e3"
  let ?after = "(token, GetCommit owner repo baseSHA, Inr res) # e7"
  have "snd s' = snd s @ ?before
                    @ [(token, GetRef owner repo baseBranch, Inr head),
                       (token, PostRef owner repo (''refs/heads/'' @ newBranch)
                                 (data_object_sha head), reply)]
                    @ ?after
                    @ [(token, PostCommit owner repo commitMessage [data_object_sha head] newTreeSHA,
                        Inr created),
                       (token, PatchRef owner repo newBranch (data_sha created) True, Inr final)]"
    using e1(1) e2(1) e3(1) head reply s6 e7 created final by simp
  moreover have "\<forall>x\<in>set ?before. ?quiet x"
    using e1(2) e2(2) e3(2) by auto
  moreover have "result_commitSHA result = data_sha created"
    using result created(2) by simp
  moreover have "result_branchUrl result
               = ''https://github.com/'' @ owner @ ''/'' @ repo @ ''/tree/'' @ newBranch"
    using result by simp
  ultimately show ?thesis by blast
qed

theorem pushFilesAsCommit_new_branch_witness:
  "''feature-x'' \<noteq> []
   \<and> fst (pushFilesAsCommit demoRemote ''octo'' ''demo'' ''main'' ''feature-x'' demoFiles
             ''add files'' ''tok'' None ([''refs/heads/main''], []))
       = Inr \<lparr>result_commitSHA = ''c1'', result_repoUrl = ''https://github.com/octo/demo'',
              result_branchUrl = ''https://github.com/octo/demo/tree/feature-x''\<rparr>
   \<and> map request_of
        (snd (snd (pushFilesAsCommit demoRemote ''octo'' ''demo'' ''main'' ''feature-x'' demoFiles
                     ''add files'' ''tok'' None ([''refs/heads/main''], []))))
       = [GetUser, GetRepo ''octo'' ''demo'', GetRef ''octo'' ''demo'' ''main'',
          PostRef ''octo'' ''demo'' ''refs/heads/feature-x'' ''c0'',
          GetCommit ''octo'' ''demo'' ''c0'',
          PostBlob ''octo'' ''demo'' ''export {}'' ''utf-8'',
          PostBlob ''octo'' ''demo'' ''# readme'' ''utf-8'',
          PostTree ''octo'' ''demo'' ''t0''
            [\<lparr>entry_path = ''src/lib/a.ts'', entry_mode = ''100644'', entry_type = ''blob'',
              entry_sha = ''b''\<rparr>,
             \<lparr>entry_path = ''README.md'', entry_mode = ''100644'', entry_type = ''blob'',
              entry_sha = ''b''\<rparr>],
          PostCommit ''octo'' ''demo'' ''add files'' [''c0''] ''t1'',
          PatchRef ''octo'' ''demo'' ''feature-x'' ''c1'' True]
   \<and> fst (snd (pushFilesAsCommit demoRemote ''octo'' ''demo'' ''main'' ''feature-x'' demoFiles
                  ''add files'' ''tok'' None ([''refs/heads/main''], [])))
       = [''refs/heads/main'', ''refs/heads/feature-x'']"
proof -
  let ?run = "pushFilesAsCommit demoRemote ''octo'' ''demo'' ''main'' ''feature-x'' demoFiles
                ''add files'' ''tok'' None ([''refs/heads/main''], [])"
  have commit: "map_sum id result_commitSHA (fst ?run) = Inr ''c1''"
    and repoUrl: "map_sum id result_repoUrl (fst ?run) = Inr ''https://github.com/octo/demo''"
    by (simp_all add: pushFilesAsCommit_def pushTry_def client_defs io_defs validatedFiles_demo
        demo_defs Let_def)
  have log: "map request_of (snd (snd ?run))
       = [GetUser, GetRepo ''octo'' ''demo'', GetRef ''octo'' ''demo'' ''main'',
          PostRef ''octo'' ''demo'' ''refs/heads/feature-x'' ''c0'',
          GetCommit ''octo'' ''demo'' ''c0'',
          PostBlob ''octo'' ''demo'' ''export {}'' ''utf-8'',
          PostBlob ''octo'' ''demo'' ''# readme'' ''utf-8'',
          PostTree ''octo'' ''demo'' ''t0''
            [\<lparr>entry_path = ''src/lib/a.ts'', entry_mode = ''100644'', entry_type = ''blob'',
              entry_sha = ''b''\<rparr>,
             \<lparr>entry_path = ''README.md'', entry_mode = ''100644'', entry_type = ''blob'',
              entry_sha = ''b''\<rparr>],
          PostCommit ''octo'' ''demo'' ''add files'' [''c0''] ''t1'',
          PatchRef ''octo'' ''demo'' ''feature-x'' ''c1'' True]"
    by (simp add: pushFilesAsCommit_def pushTry_def client_defs io_defs validatedFiles_demo
        demo_defs request_of_def Let_def)
  have refs: "fst (snd ?run) = [''refs/heads/main'', ''refs/heads/feature-x'']"
    by (simp add: pushFilesAsCommit_def pushTry_def client_defs io_defs validatedFiles_demo
        demo_defs Let_def)
  from commit obtain result where result: "fst ?run = Inr result"
    by (cases "fst ?run") simp_all
  then have run: "?run = (Inr result, snd ?run)"
    by (simp add: prod_eq_iff)
  have nb: "''feature-x'' \<noteq> []"
    by simp
  from pushFilesAsCommit_new_branch [OF nb run]
  have "result_branchUrl result = ''https://github.com/octo/demo/tree/feature-x''"
    by auto
  with commit repoUrl result have "result = \<lparr>result_commitSHA = ''c1'',
      result_repoUrl = ''https://github.com/octo/demo'',
      result_branchUrl = ''https://github.com/octo/demo/tree/feature-x''\<rparr>"
    by simp
  with result log refs nb show ?thesis
    by simp
qed

section \<open>Creating a branch\<close>

text \<open>
  Claim C6. \<open>createBranch\<close> sends one request. It returns normally when the remote
  service accepts the request and when it rejects it with status 422 (the branch exists
  already); any other error is thrown as the remote service gave it. So when a first
  call has created the branch and the remote service rejects the repeated request with
  a 422, the second call returns normally as well.
\<close>

theorem createBranch_idempotent:
  assumes "remote token (PostRef owner repo (''refs/heads/'' @ newBranch) baseSHA) w = (reply, w')"
  shows "createBranch remote owner repo newBranch baseSHA token (w, log)
           = ((case reply of
                 Inr res \<Rightarrow> Inr ()
               | Inl f \<Rightarrow> if statusOf (AxiosError f) = Some 422 then Inr ()
                          else Inl (AxiosError f)),
              (w', log @ [(token, PostRef owner repo (''refs/heads/'' @ newBranch) baseSHA, reply)]))
         \<and> (\<forall>f w''. (\<exists>res. reply = Inr res)
               \<and> remote token (PostRef owner repo (''refs/heads/'' @ newBranch) baseSHA) w'
                   = (Inl f, w'')
               \<and> statusOf (AxiosError f) = Some 422
             \<longrightarrow> fst (createBranch remote owner repo newBranch baseSHA token
                        (snd (createBranch remote owner repo newBranch baseSHA token (w, log))))
                 = Inr ())"
  using assms
  by (auto simp: createBranch_def io_defs split: sum.splits)

theorem createBranch_idempotent_witness:
  "createBranch demoRemote ''octo'' ''demo'' ''feature-x'' ''c0'' ''tok'' ([''refs/heads/main''], [])
     = (Inr (), ([''refs/heads/main'', ''refs/heads/feature-x''],
                 [(''tok'', PostRef ''octo'' ''demo'' ''refs/heads/feature-x'' ''c0'', Inr blankResponse)]))
   \<and> createBranch demoRemote ''octo'' ''demo'' ''feature-x'' ''c0'' ''tok''
        ([''refs/heads/main'', ''refs/heads/feature-x''], [])
     = (Inr (), ([''refs/heads/main'', ''refs/heads/feature-x''],
                 [(''tok'', PostRef ''octo'' ''demo'' ''refs/heads/feature-x'' ''c0'',
                   Inl (httpFailure 422))]))
   \<and> createBranch demoRemote ''octo'' ''empty'' ''feature-x'' ''c0'' ''tok'' ([], [])
     = (Inl (AxiosError (httpFailure 409)),
        ([], [(''tok'', PostRef ''octo'' ''empty'' ''refs/heads/feature-x'' ''c0'',
               Inl (httpFailure 409))]))"
proof -
  have 1: "demoRemote ''tok'' (PostRef ''octo'' ''demo'' (''refs/heads/'' @ ''feature-x'') ''c0'')
             [''refs/heads/main'']
           = (Inr blankResponse, [''refs/heads/main'', ''refs/heads/feature-x''])"
    by simp
  have 2: "demoRemote ''tok'' (PostRef ''octo'' ''demo'' (''refs/heads/'' @ ''feature-x'') ''c0'')
             [''refs/heads/main'', ''refs/heads/feature-x'']
           = (Inl (httpFailure 422), [''refs/heads/main'', ''refs/heads/feature-x''])"
    by simp
  have 3: "demoRemote ''tok'' (PostRef ''octo'' ''empty'' (''refs/heads/'' @ ''feature-x'') ''c0'') []
           = (Inl (httpFailure 409), [])"
    by simp
  show ?thesis
    using
      createBranch_idempotent [of demoRemote "''tok''" "''octo''" "''demo''" "''feature-x''"
        "''c0''" "[''refs/heads/main'']" _ _ "[]", OF 1]
      createBranch_idempotent [of demoRemote "''tok''" "''octo''" "''demo''" "''feature-x''"
        "''c0''" "[''refs/heads/main'', ''refs/heads/feature-x'']" _ _ "[]", OF 2]
      createBranch_idempotent [of demoRemote "''tok''" "''octo''" "''empty''" "''feature-x''"
        "''c0''" "[]" _ _ "[]", OF 3]
    by (simp add: httpFailure_def)
qed

section \<open>The encoding of blobs\<close>

lemma createBlob_log:
  "\<exists>reply. snd (snd (createBlob remote owner repo content token s))
            = snd s @ [(token, PostBlob owner repo content ''utf-8'', reply)]"
  by (auto simp: createBlob_def io_defs split: prod.splits sum.splits)

lemma quiet_pushFilesAsCommit_utf8:
  "quiet (pushFilesAsCommit remote owner repo baseBranch newBranch files commitMessage token
            repoDescription) (\<lambda>x. declaresUtf8 (request_of x))"
  unfolding pushFilesAsCommit_def pushTry_def Let_def
  by (intro quiet_intros quiet_verifyToken quiet_repositoryExists quiet_createRepository
      quiet_getBranchSHA quiet_createBranch quiet_createTree quiet_createCommit
      quiet_updateBranch quiet_pushCatch)
    (simp_all add: request_of_def)

text \<open>
  Claim C10. \<open>createBlob\<close> posts its content, whatever it is, with the encoding
  \<open>utf-8\<close>; so do all blob requests of \<open>createTree\<close> and of \<open>pushFilesAsCommit\<close>, on
  every remote service and for every list of files. No request declares \<open>base64\<close>,
  also not for the raw payload a walk with \<open>includeBinary\<close> keeps of a file it could
  not decode.
\<close>

theorem createBlob_always_utf8:
  "(\<exists>reply. snd (snd (createBlob remote owner repo content token s))
              = snd s @ [(token, PostBlob owner repo content ''utf-8'', reply)])
   \<and> (\<exists>ext. snd (snd (createTree remote owner repo baseTreeSHA files token s)) = snd s @ ext
             \<and> list_all (\<lambda>x. declaresUtf8 (request_of x)) ext)
   \<and> (\<exists>ext. snd (snd (pushFilesAsCommit remote owner repo baseBranch newBranch files
                         commitMessage token repoDescription s)) = snd s @ ext
             \<and> list_all (\<lambda>x. declaresUtf8 (request_of x)) ext)"
proof (intro conjI)
  show "\<exists>reply. snd (snd (createBlob remote owner repo content token s))
              = snd s @ [(token, PostBlob owner repo content ''utf-8'', reply)]"
    by (rule createBlob_log)
next
  have "quiet (createTree remote owner repo baseTreeSHA files token)
          (\<lambda>x. declaresUtf8 (request_of x))"
    by (rule quiet_createTree) (simp_all add: request_of_def)
  then show "\<exists>ext. snd (snd (createTree remote owner repo baseTreeSHA files token s)) = snd s @ ext
             \<and> list_all (\<lambda>x. declaresUtf8 (request_of x)) ext"
    unfolding quiet_def list_all_iff by (metis prod.collapse)
next
  show "\<exists>ext. snd (snd (pushFilesAsCommit remote owner repo baseBranch newBranch files
                         commitMessage token repoDescription s)) = snd s @ ext
             \<and> list_all (\<lambda>x. declaresUtf8 (request_of x)) ext"
    using quiet_pushFilesAsCommit_utf8 unfolding quiet_def list_all_iff by (metis prod.collapse)
qed

theorem createBlob_always_utf8_witness:
  "fetchAllRepositoryFiles demoRemote noEngine demoDecode ''octo'' ''assets'' ''tok'' None
     (Some (emptyConfig\<lparr>includeBinary := Some True\<rparr>)) ([''refs/heads/main''], [])
     = (Inr ([\<lparr>file_path = ''logo.png'', file_content = ''iVBORw0KGgo=''\<rparr>], 0),
        ([''refs/heads/main''],
         [(''tok'', GetTree ''octo'' ''assets'' ''main'',
           Inr (blankResponse\<lparr>data_tree :=
                  [\<lparr>item_path = ''logo.png'', item_type = ''blob'', item_url = ''iVBORw0KGgo=''\<rparr>]\<rparr>)),
          (''tok'', GetUrl ''iVBORw0KGgo='',
           Inr (blankResponse\<lparr>data_size := 12, data_content := ''iVBORw0KGgo=''\<rparr>))]))
   \<and> map request_of
        (snd (snd (pushFilesAsCommit demoRemote ''octo'' ''assets'' ''main'' []
                     [\<lparr>file_path = ''logo.png'', file_content = ''iVBORw0KGgo=''\<rparr>]
                     ''add logo'' ''tok'' None ([''refs/heads/main''], []))))
       = [GetUser, GetRepo ''octo'' ''assets'', GetRef ''octo'' ''assets'' ''main'',
          GetCommit ''octo'' ''assets'' ''c0'',
          PostBlob ''octo'' ''assets'' ''iVBORw0KGgo='' ''utf-8'',
          PostTree ''octo'' ''assets'' ''t0''
            [\<lparr>entry_path = ''logo.png'', entry_mode = ''100644'', entry_type = ''blob'',
              entry_sha = ''b''\<rparr>],
          PostCommit ''octo'' ''assets'' ''add logo'' [''c0''] ''t1'',
          PatchRef ''octo'' ''assets'' ''main'' ''c1'' True]
   \<and> list_all (\<lambda>x. declaresUtf8 (request_of x))
        (snd (snd (pushFilesAsCommit demoRemote ''octo'' ''assets'' ''main'' []
                     [\<lparr>file_path = ''logo.png'', file_content = ''iVBORw0KGgo=''\<rparr>]
                     ''add logo'' ''tok'' None ([''refs/heads/main''], []))))"
proof -
  have walk: "fetchAllRepositoryFiles demoRemote noEngine demoDecode ''octo'' ''assets'' ''tok'' None
     (Some (emptyConfig\<lparr>includeBinary := Some True\<rparr>)) ([''refs/heads/main''], [])
     = (Inr ([\<lparr>file_path = ''logo.png'', file_content = ''iVBORw0KGgo=''\<rparr>], 0),
        ([''refs/heads/main''],
         [(''tok'', GetTree ''octo'' ''assets'' ''main'',
           Inr (blankResponse\<lparr>data_tree :=
                  [\<lparr>item_path = ''logo.png'', item_type = ''blob'', item_url = ''iVBORw0KGgo=''\<rparr>]\<rparr>)),
          (''tok'', GetUrl ''iVBORw0KGgo='',
           Inr (blankResponse\<lparr>data_size := 12, data_content := ''iVBORw0KGgo=''\<rparr>))]))"
    by (simp add: walker_defs io_defs demo_defs)
  have valid: "validatedFiles [\<lparr>file_path = ''logo.png'', file_content = ''iVBORw0KGgo=''\<rparr>]
                 = [\<lparr>file_path = ''logo.png'', file_content = ''iVBORw0KGgo=''\<rparr>]"
    by (simp add: validatedFiles_def keepFile_def normalizeFile_def trim_def isWhiteSpace_def
        invalidChars_def replaceBackslashes_def)
  have log: "map request_of
        (snd (snd (pushFilesAsCommit demoRemote ''octo'' ''assets'' ''main'' []
                     [\<lparr>file_path = ''logo.png'', file_content = ''iVBORw0KGgo=''\<rparr>]
                     ''add logo'' ''tok'' None ([''refs/heads/main''], []))))
       = [GetUser, GetRepo ''octo'' ''assets'', GetRef ''octo'' ''assets'' ''main'',
          GetCommit ''octo'' ''assets'' ''c0'',
          PostBlob ''octo'' ''assets'' ''iVBORw0KGgo='' ''utf-8'',
          PostTree ''octo'' ''assets'' ''t0''
            [\<lparr>entry_path = ''logo.png'', entry_mode = ''100644'', entry_type = ''blob'',
              entry_sha = ''b''\<rparr>],
          PostCommit ''octo'' ''assets'' ''add logo'' [''c0''] ''t1'',
          PatchRef ''octo'' ''assets'' ''main'' ''c1'' True]"
    by (simp add: pushFilesAsCommit_def pushTry_def client_defs io_defs valid demo_defs
        request_of_def Let_def)
  from createBlob_always_utf8 [where remote = demoRemote and owner = "''octo''"
      and repo = "''assets''" and token = "''tok''" and baseBranch = "''main''"
      and newBranch = "[]" and commitMessage = "''add logo''" and repoDescription = None
      and files = "[\<lparr>file_path = ''logo.png'', file_content = ''iVBORw0KGgo=''\<rparr>]"
      and s = "([''refs/heads/main''], [])"]
  have "list_all (\<lambda>x. declaresUtf8 (request_of x))
        (snd (snd (pushFilesAsCommit demoRemote ''octo'' ''assets'' ''main'' []
                     [\<lparr>file_path = ''logo.png'', file_content = ''iVBORw0KGgo=''\<rparr>]
                     ''add logo'' ''tok'' None ([''refs/heads/main''], []))))"
    by auto
  with walk log show ?thesis
    by blast
qed

section \<open>A 409 from the remote service\<close>

lemma axios_Inl:
  "remote token rq (fst s) = (Inl f, w')
   \<Longrightarrow> axios remote token rq s = (Inl (AxiosError f), (w', snd s @ [(token, rq, Inl f)]))"
  by (simp add: axios_def)

lemma pushCatch_409:
  "statusOf (AxiosError f) = Some 409 \<Longrightarrow> pushCatch (AxiosError f) = throw (AxiosError f)"
  by (auto simp: pushCatch_def split: option.splits)

text \<open>
  Claim C3, as stated, fails on the publish path: when the remote service answers the
  read of the branch head with a 409, \<open>pushFilesAsCommit\<close> throws the error of the
  remote service itself, with its own message.
\<close>

theorem conflict_409_counterexample:
  "fst (pushFilesAsCommit demoRemote ''octo'' ''empty'' ''main'' [] demoFiles ''add files''
          ''tok'' None ([], []))
     = Inl (AxiosError (httpFailure 409))
   \<and> messageOf (AxiosError (httpFailure 409)) = ''Request failed''"
  by (simp add: pushFilesAsCommit_def pushTry_def pushCatch_def client_defs io_defs demo_defs
      Let_def)

text \<open>
  Claim C3, amended. For an error of the remote service with status 409: when it
  answers the tree read of \<open>fetchAllRepositoryFiles\<close>, that function throws
  \<open>Error('Repository owner/repo is empty')\<close>; when it answers the read of the branch
  head in \<open>pushFilesAsCommit\<close>, however the run got there (the token verified, the
  repository found, or not found and created), that function throws the error of the
  remote service unchanged, and the run ends with that read.
\<close>

theorem conflict_409:
  assumes "statusOf (AxiosError f) = Some 409"
  shows "(remote token (GetTree owner repo (case branchArg of None \<Rightarrow> ''main'' | Some b \<Rightarrow> b)) w
            = (Inl f, w')
          \<longrightarrow> fetchAllRepositoryFiles remote engine base64ToUtf8 owner repo token branchArg
                configArg (w, log)
              = (Inl (Error (''Repository '' @ owner @ ''/'' @ repo @ '' is empty'')),
                 (w', log @ [(token,
                              GetTree owner repo (case branchArg of None \<Rightarrow> ''main'' | Some b \<Rightarrow> b),
                              Inl f)])))
       \<and> (\<forall>tokenInfo s1 repoExists s2 s3 w4.
             verifyToken remote token s = (Inr tokenInfo, s1)
             \<and> repositoryExists remote owner repo token s1 = (Inr repoExists, s2)
             \<and> (if \<not> repoExists
                 then await (createRepository remote repo False
                               (Some (orElse repoDescription ''Generated repository from v0''))
                               token None)
                        (\<lambda>newRepo. return ())
                 else return ()) s2 = (Inr (), s3)
             \<and> remote token (GetRef owner repo baseBranch) (fst s3) = (Inl f, w4)
           \<longrightarrow> pushFilesAsCommit remote owner repo baseBranch newBranch files commitMessage
                 token repoDescription s
               = (Inl (AxiosError f),
                  (w4, snd s3 @ [(token, GetRef owner repo baseBranch, Inl f)])))"
proof (intro conjI allI impI)
  assume "remote token (GetTree owner repo (case branchArg of None \<Rightarrow> ''main'' | Some b \<Rightarrow> b)) w
            = (Inl f, w')"
  with assms show "fetchAllRepositoryFiles remote engine base64ToUtf8 owner repo token branchArg
                configArg (w, log)
              = (Inl (Error (''Repository '' @ owner @ ''/'' @ repo @ '' is empty'')),
                 (w', log @ [(token,
                              GetTree owner repo (case branchArg of None \<Rightarrow> ''main'' | Some b \<Rightarrow> b),
                              Inl f)]))"
    by (auto simp: fetchAllRepositoryFiles_def Let_def io_defs)
next
  fix tokenInfo s1 repoExists s2 s3 w4
  assume a: "verifyToken remote token s = (Inr tokenInfo, s1)
             \<and> repositoryExists remote owner repo token s1 = (Inr repoExists, s2)
             \<and> (if \<not> repoExists
                 then await (createRepository remote repo False
                               (Some (orElse repoDescription ''Generated repository from v0''))
                               token None)
                        (\<lambda>newRepo. return ())
                 else return ()) s2 = (Inr (), s3)
             \<and> remote token (GetRef owner repo baseBranch) (fst s3) = (Inl f, w4)"
  then have "getBranchSHA remote owner repo baseBranch token s3
               = (Inl (AxiosError f), (w4, snd s3 @ [(token, GetRef owner repo baseBranch, Inl f)]))"
    by (simp add: getBranchSHA_def await_def axios_Inl)
  with a have "pushTry remote owner repo baseBranch newBranch files commitMessage token
                 repoDescription s
               = (Inl (AxiosError f), (w4, snd s3 @ [(token, GetRef owner repo baseBranch, Inl f)]))"
    unfolding pushTry_def by (simp add: await_def [of "verifyToken remote token"]
        await_def [of "repositoryExists remote owner repo token"]
        await_def [of "if \<not> repoExists then _ else _"]
        await_def [of "getBranchSHA remote owner repo baseBranch token"])
  with assms show "pushFilesAsCommit remote owner repo baseBranch newBranch files commitMessage
                 token repoDescription s
               = (Inl (AxiosError f),
                  (w4, snd s3 @ [(token, GetRef owner repo baseBranch, Inl f)]))"
    by (simp add: pushFilesAsCommit_def try_catch_def pushCatch_409 throw_def)
qed

theorem conflict_409_witness:
  "statusOf (AxiosError (httpFailure 409)) = Some 409
   \<and> fetchAllRepositoryFiles demoRemote noEngine demoDecode ''octo'' ''empty'' ''tok'' None None
        ([], [])
     = (Inl (Error ''Repository octo/empty is empty''),
        ([], [(''tok'', GetTree ''octo'' ''empty'' ''main'', Inl (httpFailure 409))]))
   \<and> pushFilesAsCommit demoRemote ''octo'' ''empty'' ''main'' [] demoFiles ''add files''
        ''tok'' None ([], [])
     = (Inl (AxiosError (httpFailure 409)),
        ([], [(''tok'', GetUser,
               Inr (blankResponse\<lparr>data_login := ''octo'',
                                    header_oauth_scopes := Some ''repo, gist''\<rparr>)),
              (''tok'', GetRepo ''octo'' ''empty'', Inr blankResponse),
              (''tok'', GetRef ''octo'' ''empty'' ''main'', Inl (httpFailure 409))]))
   \<and> pushFilesAsCommit demoRemote ''octo'' ''fresh'' ''main'' [] demoFiles ''add files''
        ''tok'' None ([], [])
     = (Inl (AxiosError (httpFailure 409)),
        ([], [(''tok'', GetUser,
               Inr (blankResponse\<lparr>data_login := ''octo'',
                                    header_oauth_scopes := Some ''repo, gist''\<rparr>)),
              (''tok'', GetRepo ''octo'' ''fresh'', Inl (httpFailure 404)),
              (''tok'', PostRepo None ''fresh'' (Some ''Generated repository from v0'') False True,
               Inr blankResponse),
              (''tok'', GetRef ''octo'' ''fresh'' ''main'', Inl (httpFailure 409))]))"
proof -
  let ?user = "(''tok'', GetUser,
                Inr (blankResponse\<lparr>data_login := ''octo'',
                                     header_oauth_scopes := Some ''repo, gist''\<rparr>))"
  have st: "statusOf (AxiosError (httpFailure 409)) = Some 409"
    by (simp add: httpFailure_def)
  have tree: "demoRemote ''tok'' (GetTree ''octo'' ''empty''
                (case None of None \<Rightarrow> ''main'' | Some b \<Rightarrow> b)) [] = (Inl (httpFailure 409), [])"
    by simp
  have v: "verifyToken demoRemote ''tok'' ([], [])
             = (Inr \<lparr>token_login = ''octo'', token_scopes = [''repo'', ''gist'']\<rparr>,
                ([], [?user]))"
    by (simp add: verifyToken_def io_defs demo_defs trim_def isWhiteSpace_def)
  have x: "repositoryExists demoRemote ''octo'' ''empty'' ''tok'' ([], [?user])
           = (Inr True, ([], [?user, (''tok'', GetRepo ''octo'' ''empty'', Inr blankResponse)]))"
    by (simp add: repositoryExists_def io_defs)
  have c: "(if \<not> True
            then await (createRepository demoRemote ''empty'' False
                          (Some (orElse None ''Generated repository from v0'')) ''tok'' None)
                   (\<lambda>newRepo. return ())
            else return ())
             ([], [?user, (''tok'', GetRepo ''octo'' ''empty'', Inr blankResponse)])
           = (Inr (), ([], [?user, (''tok'', GetRepo ''octo'' ''empty'', Inr blankResponse)]))"
    by (simp add: return_def)
  have g: "demoRemote ''tok'' (GetRef ''octo'' ''empty'' ''main'') [] = (Inl (httpFailure 409), [])"
    by simp
  have x': "repositoryExists demoRemote ''octo'' ''fresh'' ''tok'' ([], [?user])
           = (Inr False,
              ([], [?user, (''tok'', GetRepo ''octo'' ''fresh'', Inl (httpFailure 404))]))"
    by (simp add: repositoryExists_def io_defs httpFailure_def)
  have c': "(if \<not> False
            then await (createRepository demoRemote ''fresh'' False
                          (Some (orElse None ''Generated repository from v0'')) ''tok'' None)
                   (\<lambda>newRepo. return ())
            else return ())
             ([], [?user, (''tok'', GetRepo ''octo'' ''fresh'', Inl (httpFailure 404))])
           = (Inr (),
              ([], [?user, (''tok'', GetRepo ''octo'' ''fresh'', Inl (httpFailure 404)),
                    (''tok'', PostRepo None ''fresh'' (Some ''Generated repository from v0'')
                                False True, Inr blankResponse)]))"
    by (simp add: createRepository_def io_defs orElse_def)
  have g': "demoRemote ''tok'' (GetRef ''octo'' ''fresh'' ''main'') [] = (Inl (httpFailure 409), [])"
    by simp
  note found = conflict_409 [OF st, where remote = demoRemote and token = "''tok''"
      and owner = "''octo''" and repo = "''empty''" and branchArg = None and w = "[]"
      and w' = "[]" and log = "[]" and baseBranch = "''main''" and s = "([], [])"
      and engine = noEngine and ?base64ToUtf8.0 = demoDecode and configArg = None
      and newBranch = "[]" and files = demoFiles and commitMessage = "''add files''"
      and repoDescription = None]
  note created = conflict_409 [OF st, where remote = demoRemote and token = "''tok''"
      and owner = "''octo''" and repo = "''fresh''" and baseBranch = "''main''"
      and s = "([], [])" and newBranch = "[]" and files = demoFiles
      and commitMessage = "''add files''" and repoDescription = None,
      THEN conjunct2, rule_format]
  have fetch: "fetchAllRepositoryFiles demoRemote noEngine demoDecode ''octo'' ''empty'' ''tok''
                 None None ([], [])
     = (Inl (Error ''Repository octo/empty is empty''),
        ([], [(''tok'', GetTree ''octo'' ''empty'' ''main'', Inl (httpFailure 409))]))"
    using found [THEN conjunct1] tree by simp
  have push: "pushFilesAsCommit demoRemote ''octo'' ''empty'' ''main'' [] demoFiles ''add files''
        ''tok'' None ([], [])
     = (Inl (AxiosError (httpFailure 409)),
        ([], [?user, (''tok'', GetRepo ''octo'' ''empty'', Inr blankResponse),
              (''tok'', GetRef ''octo'' ''empty'' ''main'', Inl (httpFailure 409))]))"
    using found [THEN conjunct2, rule_format, OF conjI [OF v conjI [OF x conjI [OF c]]]] g
    by simp
  have push': "pushFilesAsCommit demoRemote ''octo'' ''fresh'' ''main'' [] demoFiles ''add files''
        ''tok'' None ([], [])
     = (Inl (AxiosError (httpFailure 409)),
        ([], [?user, (''tok'', GetRepo ''octo'' ''fresh'', Inl (httpFailure 404)),
              (''tok'', PostRepo None ''fresh'' (Some ''Generated repository from v0'') False True,
               Inr blankResponse),
              (''tok'', GetRef ''octo'' ''fresh'' ''main'', Inl (httpFailure 409))]))"
    using created [OF conjI [OF v conjI [OF x' conjI [OF c']]]] g'
    by simp
  from st fetch push push' show ?thesis
    by blast
qed

section \<open>The extension allow-list of the walker\<close>

lemma js_split_not_Nil: "js_split sep s \<noteq> []"
  by (induction s) (auto split: list.splits)

lemma js_split_no_separator: "sep \<notin> set s \<Longrightarrow> js_split sep s = [s]"
  by (induction s) auto

lemma js_split_at_separator:
  "js_split sep (stem @ sep # rest) = js_split sep stem @ js_split sep rest"
  by (induction stem) (auto simp: js_split_not_Nil split: list.splits)

lemma pop_append: "ys \<noteq> [] \<Longrightarrow> pop (xs @ ys) = pop ys"
  by (cases ys rule: rev_cases) (simp_all add: pop_def)

lemma fileExtension_without_dot:
  "CHR ''.'' \<notin> set p \<Longrightarrow> fileExtension p = Some (toLowerCase p)"
  by (simp add: fileExtension_def js_split_no_separator pop_def)

lemma fileExtension_after_last_dot:
  "CHR ''.'' \<notin> set tail \<Longrightarrow> fileExtension (stem @ ''.'' @ tail) = Some (toLowerCase tail)"
  by (simp add: fileExtension_def js_split_at_separator pop_append js_split_not_Nil
      js_split_no_separator pop_def)

lemma await_result:
  "(\<And>x s'. fst (k x s') \<noteq> Inr y) \<Longrightarrow> fst (await m k s) \<noteq> Inr y"
  by (auto simp: await_def split: prod.splits sum.splits)

lemma fetchEntry_Fetched_extension:
  assumes kept: "fetchEntry remote engine base64ToUtf8 token config item s = (Inr (Fetched f), s')"
      and inc: "includeExtensions config = Some extensions" and ne: "extensions \<noteq> []"
  shows "\<not> extensionRejected extensions (item_path item)"
proof
  assume "extensionRejected extensions (item_path item)"
  with inc ne have "fst (fetchEntry remote engine base64ToUtf8 token config item s)
                      \<noteq> Inr (Fetched f)"
    by (simp add: fetchEntry_def return_def throw_def split: sum.splits)
  with kept show False
    by simp
qed

lemma applyCustomFilter_not_mismatch:
  "fst (applyCustomFilter config item content s) \<noteq> Inr (Skipped ExtensionMismatch)"
  by (simp add: applyCustomFilter_def return_def throw_def split: option.splits sum.splits)

lemma fetchEntry_not_mismatch:
  assumes inc: "includeExtensions config = Some extensions"
      and ok: "\<not> extensionRejected extensions (item_path item)"
  shows "fst (fetchEntry remote engine base64ToUtf8 token config item s)
           \<noteq> Inr (Skipped ExtensionMismatch)"
proof -
  have rest: "fst (await (thrownObject (axios remote token (GetUrl (item_url item))))
              (\<lambda>contentRes.
                 if data_size contentRes > maxFileSizeOf config then return (Skipped TooLarge)
                 else (case base64ToUtf8 (data_content contentRes) of
                         None \<Rightarrow>
                           if \<not> includeBinaryOf config then return (Skipped Binary)
                           else applyCustomFilter config item (data_content contentRes)
                       | Some content \<Rightarrow> applyCustomFilter config item content)) s)
             \<noteq> Inr (Skipped ExtensionMismatch)"
    by (rule await_result)
      (simp add: return_def applyCustomFilter_not_mismatch split: option.splits)
  show ?thesis
    using rest inc ok
    by (simp add: fetchEntry_def return_def throw_def split: sum.splits)
qed

text \<open>
  Claim C7. With a non-empty \<open>includeExtensions\<close>, a blob is fetched only if the
  lower-cased text of its path after the last dot is not empty and is in the list; for
  a path without a dot that text is the whole path. Every path is of one of the two
  kinds. And on the example remote service, whose tree lists \<open>a.ts\<close>, \<open>b.py\<close> and
  \<open>c.md\<close>, the walk with the extensions \<open>ts\<close> and \<open>md\<close> returns \<open>a.ts\<close> and \<open>c.md\<close> and
  counts one skip.
\<close>

theorem extension_filter:
  "(\<forall>f s'. fetchEntry remote engine base64ToUtf8 token config item s = (Inr (Fetched f), s')
        \<and> includeExtensions config = Some extensions \<and> extensions \<noteq> []
        \<and> item_path item = stem @ ''.'' @ tail \<and> CHR ''.'' \<notin> set tail
      \<longrightarrow> toLowerCase tail \<in> set extensions \<and> tail \<noteq> [])
   \<and> (\<forall>f s'. fetchEntry remote engine base64ToUtf8 token config item s = (Inr (Fetched f), s')
        \<and> includeExtensions config = Some extensions \<and> extensions \<noteq> []
        \<and> CHR ''.'' \<notin> set (item_path item)
      \<longrightarrow> toLowerCase (item_path item) \<in> set extensions \<and> item_path item \<noteq> [])
   \<and> (CHR ''.'' \<notin> set (item_path item)
       \<or> (\<exists>stem tail. item_path item = stem @ ''.'' @ tail \<and> CHR ''.'' \<notin> set tail))
   \<and> fst (fetchAllRepositoryFiles demoRemote noEngine demoDecode ''octo'' ''demo'' ''tok'' None
             (Some (emptyConfig\<lparr>includeExtensions := Some [''ts'', ''md'']\<rparr>)) ([], []))
       = Inr ([\<lparr>file_path = ''a.ts'', file_content = ''a.ts''\<rparr>,
               \<lparr>file_path = ''c.md'', file_content = ''c.md''\<rparr>], 1)"
proof (intro conjI allI impI)
  fix f s'
  assume a: "fetchEntry remote engine base64ToUtf8 token config item s = (Inr (Fetched f), s')
        \<and> includeExtensions config = Some extensions \<and> extensions \<noteq> []
        \<and> item_path item = stem @ ''.'' @ tail \<and> CHR ''.'' \<notin> set tail"
  then have "\<not> extensionRejected extensions (item_path item)"
    by (elim conjE) (rule fetchEntry_Fetched_extension)
  moreover from a have "fileExtension (item_path item) = Some (toLowerCase tail)"
    using fileExtension_after_last_dot [of tail stem] by simp
  ultimately show "toLowerCase tail \<in> set extensions" and "tail \<noteq> []"
    by (simp_all add: extensionRejected_def toLowerCase_def)
next
  fix f s'
  assume a: "fetchEntry remote engine base64ToUtf8 token config item s = (Inr (Fetched f), s')
        \<and> includeExtensions config = Some extensions \<and> extensions \<noteq> []
        \<and> CHR ''.'' \<notin> set (item_path item)"
  then have "\<not> extensionRejected extensions (item_path item)"
    by (elim conjE) (rule fetchEntry_Fetched_extension)
  moreover from a have "fileExtension (item_path item) = Some (toLowerCase (item_path item))"
    by (simp add: fileExtension_without_dot)
  ultimately show "toLowerCase (item_path item) \<in> set extensions" and "item_path item \<noteq> []"
    by (simp_all add: extensionRejected_def toLowerCase_def)
next
  show "CHR ''.'' \<notin> set (item_path item)
       \<or> (\<exists>stem tail. item_path item = stem @ ''.'' @ tail \<and> CHR ''.'' \<notin> set tail)"
    using split_list_last [of "CHR ''.''" "item_path item"] by auto
next
  show "fst (fetchAllRepositoryFiles demoRemote noEngine demoDecode ''octo'' ''demo'' ''tok'' None
             (Some (emptyConfig\<lparr>includeExtensions := Some [''ts'', ''md'']\<rparr>)) ([], []))
       = Inr ([\<lparr>file_path = ''a.ts'', file_content = ''a.ts''\<rparr>,
               \<lparr>file_path = ''c.md'', file_content = ''c.md''\<rparr>], 1)"
    by (simp add: walker_defs io_defs demo_defs)
qed

theorem extension_filter_witness:
  "fst (fetchEntry demoRemote noEngine demoDecode ''tok''
          (emptyConfig\<lparr>includeExtensions := Some [''ts'', ''md'']\<rparr>) (blobItem ''src/Main.TS'')
          ([], []))
     = Inr (Fetched \<lparr>file_path = ''src/Main.TS'', file_content = ''src/Main.TS''\<rparr>)
   \<and> toLowerCase ''TS'' \<in> set [''ts'', ''md'']
   \<and> fst (fetchEntry demoRemote noEngine demoDecode ''tok''
            (emptyConfig\<lparr>includeExtensions := Some [''ts'', ''md'', ''makefile'']\<rparr>)
            (blobItem ''Makefile'') ([], []))
     = Inr (Fetched \<lparr>file_path = ''Makefile'', file_content = ''Makefile''\<rparr>)
   \<and> toLowerCase ''Makefile'' \<in> set [''ts'', ''md'', ''makefile'']
   \<and> fst (fetchEntry demoRemote noEngine demoDecode ''tok''
            (emptyConfig\<lparr>includeExtensions := Some [''ts'', ''md'']\<rparr>) (blobItem ''b.py'')
            ([], []))
     = Inr (Skipped ExtensionMismatch)
   \<and> fst (fetchEntry demoRemote noEngine demoDecode ''tok''
            (emptyConfig\<lparr>includeExtensions := Some [''ts'', ''md'']\<rparr>) (blobItem ''README'')
            ([], []))
     = Inr (Skipped ExtensionMismatch)"
proof -
  let ?config = "emptyConfig\<lparr>includeExtensions := Some [''ts'', ''md'']\<rparr>"
  let ?config' = "emptyConfig\<lparr>includeExtensions := Some [''ts'', ''md'', ''makefile'']\<rparr>"
  let ?run = "fetchEntry demoRemote noEngine demoDecode ''tok'' ?config (blobItem ''src/Main.TS'')
                ([], [])"
  let ?run' = "fetchEntry demoRemote noEngine demoDecode ''tok'' ?config' (blobItem ''Makefile'')
                ([], [])"
  have kept: "fst ?run = Inr (Fetched \<lparr>file_path = ''src/Main.TS'', file_content = ''src/Main.TS''\<rparr>)"
    by (simp add: walker_defs io_defs demo_defs)
  then have run: "?run = (Inr (Fetched \<lparr>file_path = ''src/Main.TS'',
                                         file_content = ''src/Main.TS''\<rparr>), snd ?run)"
    by (simp add: prod_eq_iff)
  have kept': "fst ?run' = Inr (Fetched \<lparr>file_path = ''Makefile'', file_content = ''Makefile''\<rparr>)"
    by (simp add: walker_defs io_defs demo_defs)
  then have run': "?run' = (Inr (Fetched \<lparr>file_path = ''Makefile'',
                                           file_content = ''Makefile''\<rparr>), snd ?run')"
    by (simp add: prod_eq_iff)
  have inc: "includeExtensions ?config = Some [''ts'', ''md'']"
    and inc': "includeExtensions ?config' = Some [''ts'', ''md'', ''makefile'']"
    by (simp_all add: emptyConfig_def)
  have p: "item_path (blobItem ''src/Main.TS'') = ''src/Main'' @ ''.'' @ ''TS''"
    and p': "CHR ''.'' \<notin> set (item_path (blobItem ''Makefile''))"
    by (simp_all add: blobItem_def)
  note dotted = extension_filter [where remote = demoRemote and engine = noEngine
      and ?base64ToUtf8.0 = demoDecode and token = "''tok''" and config = ?config
      and item = "blobItem ''src/Main.TS''" and s = "([], [])"
      and extensions = "[''ts'', ''md'']" and stem = "''src/Main''" and tail = "''TS''",
      THEN conjunct1, rule_format, THEN conjunct1]
  note dotless = extension_filter [where remote = demoRemote and engine = noEngine
      and ?base64ToUtf8.0 = demoDecode and token = "''tok''" and config = ?config'
      and item = "blobItem ''Makefile''" and s = "([], [])"
      and extensions = "[''ts'', ''md'', ''makefile'']",
      THEN conjunct2, THEN conjunct1, rule_format, THEN conjunct1]
  have "toLowerCase ''TS'' \<in> set [''ts'', ''md'']"
    by (rule dotted) (intro conjI, rule run, rule inc, simp, rule p, simp)
  moreover have "toLowerCase (item_path (blobItem ''Makefile'')) \<in> set [''ts'', ''md'', ''makefile'']"
    by (rule dotless) (intro conjI, rule run', rule inc', simp, rule p')
  then have "toLowerCase ''Makefile'' \<in> set [''ts'', ''md'', ''makefile'']"
    by (simp add: blobItem_def)
  moreover have "fst (fetchEntry demoRemote noEngine demoDecode ''tok'' ?config (blobItem ''b.py'')
                        ([], []))
                 = Inr (Skipped ExtensionMismatch)"
    by (simp add: walker_defs io_defs demo_defs)
  moreover have "fst (fetchEntry demoRemote noEngine demoDecode ''tok'' ?config
                        (blobItem ''README'') ([], []))
                 = Inr (Skipped ExtensionMismatch)"
    by (simp add: walker_defs io_defs demo_defs)
  ultimately show ?thesis
    using kept kept' by blast
qed

text \<open>
  Claim C9. For a path without a dot the extension the walker computes is the whole
  lower-cased path; so an item whose lower-cased path is \<open>dockerfile\<close> is not skipped
  for its extension when \<open>includeExtensions\<close> contains \<open>dockerfile\<close>, as the list of
  \<open>fetchSourceCodeFiles\<close> does.
\<close>

theorem extension_of_dotless_path:
  assumes "CHR ''.'' \<notin> set (item_path item)"
  shows "fileExtension (item_path item) = Some (toLowerCase (item_path item))
         \<and> (includeExtensions config = Some extensions
              \<and> toLowerCase (item_path item) = ''dockerfile''
              \<and> ''dockerfile'' \<in> set extensions
            \<longrightarrow> fst (fetchEntry remote engine base64ToUtf8 token config item s)
                  \<noteq> Inr (Skipped ExtensionMismatch))"
proof (intro conjI impI)
  show ext: "fileExtension (item_path item) = Some (toLowerCase (item_path item))"
    using assms by (rule fileExtension_without_dot)
  assume a: "includeExtensions config = Some extensions
              \<and> toLowerCase (item_path item) = ''dockerfile''
              \<and> ''dockerfile'' \<in> set extensions"
  with ext have "\<not> extensionRejected extensions (item_path item)"
    by (simp add: extensionRejected_def)
  with a show "fst (fetchEntry remote engine base64ToUtf8 token config item s)
                  \<noteq> Inr (Skipped ExtensionMismatch)"
    by (elim conjE) (rule fetchEntry_not_mismatch)
qed


theorem extension_of_dotless_path_witness:
  "CHR ''.'' \<notin> set ''Dockerfile''
   \<and> fileExtension ''Dockerfile'' = Some ''dockerfile''
   \<and> fst (fetchEntry demoRemote noEngine demoDecode ''tok'' sourceCodeConfig
            (blobItem ''Dockerfile'') ([], []))
     = Inr (Fetched \<lparr>file_path = ''Dockerfile'', file_content = ''Dockerfile''\<rparr>)
   \<and> fst (fetchEntry demoRemote noEngine demoDecode ''tok'' sourceCodeConfig
            (blobItem ''DOCKERFILE'') ([], []))
     = Inr (Fetched \<lparr>file_path = ''DOCKERFILE'', file_content = ''DOCKERFILE''\<rparr>)
   \<and> fst (fetchEntry demoRemote noEngine demoDecode ''tok'' sourceCodeConfig
            (blobItem ''docker/Dockerfile'') ([], []))
     = Inr (Skipped ExtensionMismatch)"
proof -
  have dotless: "CHR ''.'' \<notin> set (item_path (blobItem ''Dockerfile''))"
    by (simp add: blobItem_def)
  have lower: "toLowerCase ''Dockerfile'' = ''dockerfile''"
    by (simp add: toLowerCase_def toLowerChar_def char_of_def bit_0)
  from extension_of_dotless_path [OF dotless]
  have "fileExtension (item_path (blobItem ''Dockerfile''))
          = Some (toLowerCase (item_path (blobItem ''Dockerfile'')))"
    by (rule conjunct1)
  then have ext: "fileExtension ''Dockerfile'' = Some ''dockerfile''"
    by (simp add: blobItem_def lower)
  have 1: "fst (fetchEntry demoRemote noEngine demoDecode ''tok'' sourceCodeConfig
            (blobItem ''Dockerfile'') ([], []))
     = Inr (Fetched \<lparr>file_path = ''Dockerfile'', file_content = ''Dockerfile''\<rparr>)"
    by (simp add: walker_defs exclude_defs io_defs demo_defs)
  have 2: "fst (fetchEntry demoRemote noEngine demoDecode ''tok'' sourceCodeConfig
            (blobItem ''DOCKERFILE'') ([], []))
     = Inr (Fetched \<lparr>file_path = ''DOCKERFILE'', file_content = ''DOCKERFILE''\<rparr>)"
    by (simp add: walker_defs exclude_defs io_defs demo_defs)
  have 3: "fst (fetchEntry demoRemote noEngine demoDecode ''tok'' sourceCodeConfig
            (blobItem ''docker/Dockerfile'') ([], []))
     = Inr (Skipped ExtensionMismatch)"
    by (simp add: walker_defs exclude_defs io_defs demo_defs)
  from ext 1 2 3 show ?thesis
    by simp
qed

section \<open>Failures of single entries in a walk\<close>

lemma walkTree_accumulators:
  "walkTree entry tree files skippedCount s = (Inr (fetched, skipped), s')
   \<Longrightarrow> walkTree entry tree (earlier @ files) (n + skippedCount) s
         = (Inr (earlier @ fetched, n + skipped), s')"
proof (induction tree arbitrary: files skippedCount s)
  case Nil
  then show ?case by simp
next
  case (Cons item tree)
  show ?case
  proof (cases "item_type item = ''blob''")
    case False
    with Cons show ?thesis by simp
  next
    case True
    obtain r s1 where entry: "entry item s = (r, s1)"
      by (cases "entry item s")
    show ?thesis
    proof (cases r)
      case (Inl t)
      with Cons.prems True entry obtain error where t: "t = ThrownObject error"
        by (cases t) simp_all
      with Cons.prems True entry Inl
      have "walkTree entry tree files (skippedCount + 1) s1 = (Inr (fetched, skipped), s')"
        by simp
      from Cons.IH [OF this] True entry Inl t show ?thesis
        by simp
    next
      case (Inr oc)
      show ?thesis
      proof (cases oc)
        case (Fetched f)
        with Cons.prems True entry Inr
        have "walkTree entry tree (files @ [f]) skippedCount s1 = (Inr (fetched, skipped), s')"
          by simp
        from Cons.IH [OF this] True entry Inr Fetched show ?thesis
          by simp
      next
        case (Skipped reason)
        with Cons.prems True entry Inr
        have "walkTree entry tree files (skippedCount + 1) s1 = (Inr (fetched, skipped), s')"
          by simp
        from Cons.IH [OF this] True entry Inr Skipped show ?thesis
          by simp
      qed
    qed
  qed
qed

lemma walkTree_append:
  "walkTree entry (before @ after) files skippedCount s
     = (case walkTree entry before files skippedCount s of
          (Inl error, s') \<Rightarrow> (Inl error, s')
        | (Inr (fetched, skipped), s') \<Rightarrow> walkTree entry after fetched skipped s')"
  by (induction before arbitrary: files skippedCount s)
    (simp_all split: prod.splits sum.splits outcome.splits thrown.splits)

text \<open>
  A failure that throws an error object costs one skip and nothing else: the walk returns
  the files of the entries before it and of the entries after it.
\<close>

lemma walkTree_entry_failure:
  assumes blob: "item_type item = ''blob''"
      and fails: "entry item s1 = (Inl (ThrownObject error), s2)"
      and before: "walkTree entry before [] 0 s = (Inr (files1, skipped1), s1)"
      and after: "walkTree entry after [] 0 s2 = (Inr (files2, skipped2), s3)"
  shows "walkTree entry (before @ item # after) [] 0 s
           = (Inr (files1 @ files2, skipped1 + 1 + skipped2), s3)"
proof -
  have "walkTree entry (before @ item # after) [] 0 s
          = walkTree entry (item # after) files1 skipped1 s1"
    by (simp add: walkTree_append before)
  also have "\<dots> = walkTree entry after files1 (skipped1 + 1) s2"
    using blob fails by simp
  also have "\<dots> = (Inr (files1 @ files2, skipped1 + 1 + skipped2), s3)"
    using walkTree_accumulators [OF after, of files1 "skipped1 + 1"] by simp
  finally show ?thesis .
qed

text \<open>A thrown \<open>undefined\<close> ends the walk, whatever comes after the entry.\<close>

lemma walkTree_entry_undefined:
  assumes blob: "item_type item = ''blob''"
      and fails: "entry item s1 = (Inl ThrownUndefined, s2)"
      and before: "walkTree entry before [] 0 s = (Inr (files1, skipped1), s1)"
  shows "walkTree entry (before @ item # after) [] 0 s
           = (Inl (TypeError ''Cannot read properties of undefined (reading 'message')''), s2)"
  using blob fails by (simp add: walkTree_append before)

text \<open>
  Claim C8, at a custom filter that throws on the path \<open>b.py\<close>, on the example remote
  service, whose tree lists \<open>a.ts\<close>, \<open>b.py\<close> and \<open>c.md\<close>. When the filter throws an
  \<open>Error\<close>, the walk returns \<open>a.ts\<close> and \<open>c.md\<close> and counts one skip. When it throws
  \<open>undefined\<close>, the \<open>catch\<close> around the entry throws a \<open>TypeError\<close> itself:
  \<open>fetchAllRepositoryFiles\<close> fails with it, \<open>a.ts\<close> is lost and \<open>c.md\<close> is never fetched.
\<close>

theorem custom_filter_throwing_undefined_aborts_walk:
  "fst (fetchAllRepositoryFiles demoRemote noEngine demoDecode ''octo'' ''demo'' ''tok'' None
          (Some (emptyConfig\<lparr>customFilter := Some throwingFilter\<rparr>)) ([], []))
     = Inr ([\<lparr>file_path = ''a.ts'', file_content = ''a.ts''\<rparr>,
             \<lparr>file_path = ''c.md'', file_content = ''c.md''\<rparr>], 1)
   \<and> fst (fetchAllRepositoryFiles demoRemote noEngine demoDecode ''octo'' ''demo'' ''tok'' None
            (Some (emptyConfig\<lparr>customFilter := Some undefinedFilter\<rparr>)) ([], []))
     = Inl (TypeError ''Cannot read properties of undefined (reading 'message')'')
   \<and> map request_of
        (snd (snd (fetchAllRepositoryFiles demoRemote noEngine demoDecode ''octo'' ''demo''
                     ''tok'' None (Some (emptyConfig\<lparr>customFilter := Some undefinedFilter\<rparr>))
                     ([], []))))
     = [GetTree ''octo'' ''demo'' ''main'', GetUrl ''a.ts'', GetUrl ''b.py'']"
  by (simp add: walker_defs io_defs demo_defs throwingFilter_def undefinedFilter_def
      request_of_def)

section \<open>Exclude patterns\<close>

lemma glob_min_js:
  "\<not> globMatches ''*.min.js'' ''admin/js/app.ts''"
  "\<not> globMatchesPart ''*.min.js'' ''admin/js/app.ts''"
  by code_simp+

lemma regexp_min_js: "someExcluded engine [''*.min.js''] ''admin/js/app.ts'' = Inr True"
  by (simp add: exclude_defs)

text \<open>
  Claim C2, at the pattern \<open>*.min.js\<close> of the preset of \<open>fetchSourceCodeFiles\<close> and the
  path \<open>admin/js/app.ts\<close>. The pattern becomes the regular expression \<open>.*.min.js\<close>,
  whose dots match any character, and \<open>test\<close> finds a match inside the path
  (\<open>dmin/js\<close>); so the walker skips the entry as excluded. As a glob the pattern matches
  neither the path nor any part of it: the path contains no \<open>.min.js\<close>.
\<close>

theorem exclude_pattern_dot_is_wildcard:
  "globToRegExpSource ''*.min.js'' = ''.*.min.js''
   \<and> someExcluded engine [''*.min.js''] ''admin/js/app.ts'' = Inr True
   \<and> \<not> globMatches ''*.min.js'' ''admin/js/app.ts''
   \<and> \<not> globMatchesPart ''*.min.js'' ''admin/js/app.ts''
   \<and> fetchEntry remote engine base64ToUtf8 token sourceCodeConfig (blobItem ''admin/js/app.ts'') s
       = (Inr (Skipped Excluded), s)"
proof -
  have "fetchEntry remote engine base64ToUtf8 token sourceCodeConfig (blobItem ''admin/js/app.ts'') s
       = (Inr (Skipped Excluded), s)"
    by (simp add: fetchEntry_def blobItem_def exclude_defs return_def)
  moreover have "globToRegExpSource ''*.min.js'' = ''.*.min.js''"
    by (simp add: exclude_defs)
  ultimately show ?thesis
    using glob_min_js regexp_min_js by simp
qed

end
